theory Spec2Isabelle
  imports Complex_Main "HOL-Library.Log_Nat" "HOL-Library.AList"
begin

section \<open>Python values used by homesens.py\<close>

text \<open>
  The program is a single Python class, \<^verbatim>\<open>HomeSensorsApp\<close>. Its polling callback
  \<^verbatim>\<open>do_update_values\<close> handles three kinds of data: integers read from the sysctl
  tree, floats produced by true division and by \<^verbatim>\<open>float()\<close>, and the scalar fields
  of the JSON records returned by the uRadMonitor API. Python raises where a conversion
  or a lookup fails; every such raise is a value of \<open>py_error\<close> here.
\<close>

datatype py_error =
    KeyError string
  | TypeError
  | ValueError
  | OverflowError
  | ZeroDivisionError

subsection \<open>Floats\<close>

text \<open>
  A Python float is an IEEE 754 binary64 number. A finite one is represented by the
  rational it denotes; the sign of a zero is not represented (it is invisible to
  \<^verbatim>\<open>==\<close>, \<^verbatim>\<open>!=\<close> and to the value of a product or quotient).
\<close>

datatype pyfloat = FFinite rat | FPosInf | FNegInf | FNaN

definition round_half_even :: "rat \<Rightarrow> int" where
  "round_half_even x =
     (let f = \<lfloor>x\<rfloor>; d = x - of_int f
      in if d < 1 / 2 then f else if 1 / 2 < d then f + 1 else if even f then f else f + 1)"

text \<open>\<open>floor_log2 x\<close> is the exponent \<open>e\<close> with \<open>2^e \<le> x < 2^(e+1)\<close>, for \<open>x > 0\<close>.\<close>

definition floor_log2 :: "rat \<Rightarrow> int" where
  "floor_log2 x = (if 1 \<le> x then bitlen \<lfloor>x\<rfloor> - 1 else - bitlen (\<lceil>1 / x\<rceil> - 1))"

text \<open>
  Rounding to the nearest number with a 53-bit significand, ties to even; below
  \<open>2^-1022\<close> the spacing stays \<open>2^-1074\<close> (subnormal numbers).
\<close>

definition nearest_binary64 :: "rat \<Rightarrow> rat" where
  "nearest_binary64 x =
     (if x = 0 then 0
      else let e = max (floor_log2 \<bar>x\<bar>) (- 1022) - 52
           in sgn x * of_int (round_half_even (\<bar>x\<bar> / 2 powi e)) * 2 powi e)"

text \<open>
  The largest binary64 number is \<open>2^1024 - 2^971\<close>; a magnitude of at least
  \<open>2^1024 - 2^970\<close> rounds past it.
\<close>

definition binary64_overflows :: "rat \<Rightarrow> bool" where
  "binary64_overflows x \<longleftrightarrow> 2 ^ 1024 - 2 ^ 970 \<le> \<bar>x\<bar>"

text \<open>The float result of an operation whose exact result is \<open>x\<close>.\<close>

definition float_of_rat :: "rat \<Rightarrow> pyfloat" where
  "float_of_rat x =
     (if binary64_overflows x then (if 0 < x then FPosInf else FNegInf)
      else FFinite (nearest_binary64 x))"

text \<open>
  \<^verbatim>\<open>a / b\<close> on two ints: correctly rounded, \<^verbatim>\<open>ZeroDivisionError\<close> for a zero divisor,
  \<^verbatim>\<open>OverflowError\<close> when the quotient is too large for a float.
\<close>

definition int_true_div :: "int \<Rightarrow> int \<Rightarrow> py_error + pyfloat" where
  "int_true_div a b =
     (if b = 0 then Inl ZeroDivisionError
      else if binary64_overflows (of_int a / of_int b) then Inl OverflowError
      else Inr (FFinite (nearest_binary64 (of_int a / of_int b))))"

definition float_neg :: "pyfloat \<Rightarrow> pyfloat" where
  "float_neg x =
     (case x of FFinite a \<Rightarrow> FFinite (- a) | FPosInf \<Rightarrow> FNegInf | FNegInf \<Rightarrow> FPosInf
      | FNaN \<Rightarrow> FNaN)"

text \<open>\<^verbatim>\<open>x * y\<close> on two floats.\<close>

fun float_mul :: "pyfloat \<Rightarrow> pyfloat \<Rightarrow> pyfloat" where
  "float_mul FNaN y = FNaN"
| "float_mul x FNaN = FNaN"
| "float_mul (FFinite a) (FFinite b) = float_of_rat (a * b)"
| "float_mul (FFinite a) y = (if a = 0 then FNaN else if 0 < a then y else float_neg y)"
| "float_mul x (FFinite b) = (if b = 0 then FNaN else if 0 < b then x else float_neg x)"
| "float_mul x y = (if x = y then FPosInf else FNegInf)"

text \<open>\<^verbatim>\<open>x / 10\<close> on a float \<open>x\<close>: the int 10 becomes the float 10.0, which is exact.\<close>

definition float_div10 :: "pyfloat \<Rightarrow> pyfloat" where
  "float_div10 x = (case x of FFinite a \<Rightarrow> float_of_rat (a / 10) | _ \<Rightarrow> x)"

subsection \<open>Scalars\<close>

text \<open>
  The values a sysctl leaf or a field of a telemetry record can hold: \<^verbatim>\<open>None\<close>
  (JSON \<^verbatim>\<open>null\<close>), an int, a float, a string. The unset attributes
  \<^verbatim>\<open>self.temperature\<close>, \<^verbatim>\<open>self.humidity\<close> and \<^verbatim>\<open>self.cpm\<close> start as \<^verbatim>\<open>None\<close>.
  Booleans and nested arrays or objects as field values are outside the record shape
  and are not modelled.
\<close>

datatype pyval = PNone | PInt int | PFloat pyfloat | PStr string

text \<open>
  \<^verbatim>\<open>a == b\<close>. Python compares an int with a float by value, a NaN is equal to
  nothing, and values of unrelated types are unequal.
\<close>

fun float_eq :: "pyfloat \<Rightarrow> pyfloat \<Rightarrow> bool" where
  "float_eq FNaN y = False"
| "float_eq x FNaN = False"
| "float_eq x y = (x = y)"

fun py_eq :: "pyval \<Rightarrow> pyval \<Rightarrow> bool" where
  "py_eq PNone PNone = True"
| "py_eq (PInt a) (PInt b) = (a = b)"
| "py_eq (PInt a) (PFloat y) = (y = FFinite (of_int a))"
| "py_eq (PFloat x) (PInt b) = (x = FFinite (of_int b))"
| "py_eq (PFloat x) (PFloat y) = float_eq x y"
| "py_eq (PStr s) (PStr t) = (s = t)"
| "py_eq a b = False"

definition py_ne :: "pyval \<Rightarrow> pyval \<Rightarrow> bool" where
  "py_ne a b = (\<not> py_eq a b)"

subsection \<open>Parsing numbers from strings\<close>

text \<open>
  \<^verbatim>\<open>float(s)\<close> and \<^verbatim>\<open>int(s)\<close> on a string. Both strip surrounding whitespace, accept
  a sign, and accept single underscores between digits.
\<close>

definition py_isspace :: "char \<Rightarrow> bool" where
  "py_isspace c \<longleftrightarrow>
     c \<in> set [CHR 0x09, CHR 0x0A, CHR 0x0B, CHR 0x0C, CHR 0x0D, CHR 0x1C, CHR 0x1D,
              CHR 0x1E, CHR 0x1F, CHR 0x20, CHR 0x85, CHR 0xA0]"

definition py_strip :: "string \<Rightarrow> string" where
  "py_strip s = rev (dropWhile py_isspace (rev (dropWhile py_isspace s)))"

definition is_digit :: "char \<Rightarrow> bool" where
  "is_digit c \<longleftrightarrow> c \<in> set ''0123456789''"

definition digit_val :: "char \<Rightarrow> nat" where
  "digit_val c = length (takeWhile (\<lambda>d. d \<noteq> c) ''0123456789'')"

definition digits_val :: "string \<Rightarrow> nat" where
  "digits_val ds = foldl (\<lambda>n c. 10 * n + digit_val c) 0 ds"

text \<open>An underscore must have a digit on its left and a digit on its right.\<close>

fun underscores_ok :: "char \<Rightarrow> string \<Rightarrow> bool" where
  "underscores_ok prev [] = (prev \<noteq> CHR ''_'')"
| "underscores_ok prev (c # cs) =
     ((if c = CHR ''_'' then is_digit prev
       else if prev = CHR ''_'' then is_digit c else True) \<and> underscores_ok c cs)"

definition drop_underscores :: "string \<Rightarrow> string option" where
  "drop_underscores s =
     (if underscores_ok (CHR 0x00) s then Some (filter (\<lambda>c. c \<noteq> CHR ''_'') s) else None)"

definition split_sign :: "string \<Rightarrow> bool \<times> string" where
  "split_sign s =
     (case s of
        c # cs \<Rightarrow> if c = CHR ''-'' then (True, cs) else if c = CHR ''+'' then (False, cs)
                  else (False, s)
      | [] \<Rightarrow> (False, s))"

text \<open>\<^verbatim>\<open>int(s)\<close>, base 10. More than 4300 digits are refused (CPython 3.11).\<close>

definition int_of_string :: "string \<Rightarrow> py_error + int" where
  "int_of_string s =
     (let (neg, body) = split_sign (py_strip s)
      in case drop_underscores body of
           None \<Rightarrow> Inl ValueError
         | Some ds \<Rightarrow>
             if ds = [] \<or> \<not> list_all is_digit ds \<or> 4300 < length ds then Inl ValueError
             else Inr (if neg then - int (digits_val ds) else int (digits_val ds)))"

definition same_letters :: "string \<Rightarrow> string \<Rightarrow> string \<Rightarrow> bool" where
  "same_letters s lower upper =
     (length s = length lower \<and>
      list_all (\<lambda>(c, l, u). c = l \<or> c = u) (zip s (zip lower upper)))"

text \<open>The exponent part: empty, or \<^verbatim>\<open>e\<close>, an optional sign and at least one digit.\<close>

definition exponent_of :: "string \<Rightarrow> int option" where
  "exponent_of s =
     (case s of
        [] \<Rightarrow> Some 0
      | c # cs \<Rightarrow>
          if c = CHR ''e'' \<or> c = CHR ''E'' then
            (let (neg, ds) = split_sign cs
             in if ds = [] \<or> \<not> list_all is_digit ds then None
                else Some (if neg then - int (digits_val ds) else int (digits_val ds)))
          else None)"

text \<open>
  A decimal numeral: digits, an optional point and digits, at least one digit in all,
  then the exponent part. Its value is exact here and rounded by the caller.
\<close>

definition decimal_of :: "string \<Rightarrow> rat option" where
  "decimal_of s =
     (let ip = takeWhile is_digit s; r1 = dropWhile is_digit s;
          has_point = (r1 \<noteq> [] \<and> hd r1 = CHR ''.'');
          fp = (if has_point then takeWhile is_digit (tl r1) else []);
          r2 = (if has_point then dropWhile is_digit (tl r1) else r1)
      in if ip = [] \<and> fp = [] then None
         else case exponent_of r2 of
                None \<Rightarrow> None
              | Some e \<Rightarrow>
                  Some (of_nat (digits_val (ip @ fp)) * 10 powi (e - int (length fp))))"

definition float_of_string :: "string \<Rightarrow> py_error + pyfloat" where
  "float_of_string s =
     (case drop_underscores (py_strip s) of
        None \<Rightarrow> Inl ValueError
      | Some t \<Rightarrow>
          (let (neg, body) = split_sign t
           in if same_letters body ''inf'' ''INF'' \<or> same_letters body ''infinity'' ''INFINITY''
              then Inr (if neg then FNegInf else FPosInf)
              else if same_letters body ''nan'' ''NAN'' then Inr FNaN
              else case decimal_of body of
                     None \<Rightarrow> Inl ValueError
                   | Some q \<Rightarrow> Inr (float_of_rat (if neg then - q else q))))"

subsection \<open>The conversions \<^verbatim>\<open>float()\<close> and \<^verbatim>\<open>int()\<close>\<close>

definition py_float :: "pyval \<Rightarrow> py_error + pyfloat" where
  "py_float v =
     (case v of
        PNone \<Rightarrow> Inl TypeError
      | PInt n \<Rightarrow>
          if binary64_overflows (of_int n) then Inl OverflowError
          else Inr (FFinite (nearest_binary64 (of_int n)))
      | PFloat x \<Rightarrow> Inr x
      | PStr s \<Rightarrow> float_of_string s)"

definition py_int :: "pyval \<Rightarrow> py_error + int" where
  "py_int v =
     (case v of
        PNone \<Rightarrow> Inl TypeError
      | PInt n \<Rightarrow> Inr n
      | PFloat x \<Rightarrow>
          (case x of
             FFinite a \<Rightarrow> Inr (if 0 \<le> a then \<lfloor>a\<rfloor> else \<lceil>a\<rceil>)
           | FNaN \<Rightarrow> Inl ValueError
           | _ \<Rightarrow> Inl OverflowError)
      | PStr s \<Rightarrow> int_of_string s)"

text \<open>\<^verbatim>\<open>str(n)\<close> on an int, as \<^verbatim>\<open>"{}".format(n)\<close> writes it.\<close>

function str_nat :: "nat \<Rightarrow> string" where
  "str_nat n =
     (if n < 10 then [''0123456789'' ! n] else str_nat (n div 10) @ [''0123456789'' ! (n mod 10)])"
  by pat_completeness auto
termination
  by (relation "measure id") auto

definition str_int :: "int \<Rightarrow> string" where
  "str_int n = (if n < 0 then CHR ''-'' # str_nat (nat (- n)) else str_nat (nat n))"

section \<open>The world outside the program\<close>

subsection \<open>JSON documents\<close>

text \<open>
  \<^verbatim>\<open>response.json()\<close> yields a Python value. A telemetry record is a dict from field
  names to scalars. An array element that is not an object cannot be subscripted with a
  string (\<^verbatim>\<open>TypeError\<close>). Iterating over a JSON object yields its keys and iterating
  over a string its characters, none of which can be subscripted with a string either;
  a number or a boolean cannot be iterated at all.
\<close>

type_synonym pydict = "string \<rightharpoonup> pyval"

datatype json_item = JObject pydict | JNonObject

datatype json_doc =
    JsonArray "json_item list"
  | JsonObject "string list"
  | JsonString string
  | JsonScalar

definition doc_items :: "json_doc \<Rightarrow> py_error + json_item list" where
  "doc_items d =
     (case d of
        JsonArray xs \<Rightarrow> Inr xs
      | JsonObject ks \<Rightarrow> Inr (map (\<lambda>k. JNonObject) ks)
      | JsonString cs \<Rightarrow> Inr (map (\<lambda>c. JNonObject) cs)
      | JsonScalar \<Rightarrow> Inl TypeError)"

text \<open>\<^verbatim>\<open>item[k]\<close>.\<close>

definition getitem :: "json_item \<Rightarrow> string \<Rightarrow> py_error + pyval" where
  "getitem item k =
     (case item of
        JNonObject \<Rightarrow> Inl TypeError
      | JObject d \<Rightarrow> (case d k of None \<Rightarrow> Inl (KeyError k) | Some v \<Rightarrow> Inr v))"

subsection \<open>HTTP\<close>

text \<open>
  What \<^verbatim>\<open>requests.get\<close> is called with, and what comes back: an exception of the
  \<^verbatim>\<open>RequestException\<close> family, or a response with a status code and a body. A body is
  not JSON, the JSON \<^verbatim>\<open>null\<close> (Python's \<^verbatim>\<open>None\<close>), or a document. A request built
  without a \<^verbatim>\<open>timeout\<close> argument has \<open>req_timeout = None\<close>: it waits without bound.
\<close>

record http_request =
  req_url :: string
  req_headers :: "(string \<times> string option) list"
  req_timeout :: "nat option"

datatype request_exception =
    ConnectionError
  | Timeout
  | TooManyRedirects
  | InvalidRequest
  | HTTPError nat
  | JSONDecodeError

datatype http_body = NotJson | JsonNull | Json json_doc

datatype http_outcome = RequestFailed request_exception | Response nat http_body

text \<open>
  \<^verbatim>\<open>response.raise_for_status()\<close> of the requests library raises \<^verbatim>\<open>HTTPError\<close> for
  the status codes 400 to 599 and for no other.
\<close>

definition raise_for_status :: "nat \<Rightarrow> request_exception + unit" where
  "raise_for_status code = (if 400 \<le> code \<and> code < 600 then Inl (HTTPError code) else Inr ())"

subsection \<open>The environment of one call\<close>

text \<open>
  \<open>sysctl_value name\<close> is \<^verbatim>\<open>Sysctl(name).value\<close> for an integer leaf (\<open>None\<close> when the
  read yields \<^verbatim>\<open>None\<close>), \<open>sysctl_children name\<close> is \<^verbatim>\<open>Sysctl(name).children\<close> as
  a list of names and values, \<open>http_get\<close> answers a GET, \<open>url_hostname\<close> is
  \<^verbatim>\<open>urlparse(url).hostname\<close> and \<open>gethostbyname h\<close> tells whether
  \<^verbatim>\<open>socket.gethostbyname(h)\<close> returns rather than raises \<^verbatim>\<open>socket.error\<close>.
\<close>

record environment =
  sysctl_value :: "string \<Rightarrow> int option"
  sysctl_children :: "string \<Rightarrow> (string \<times> pyval) list option"
  http_get :: "http_request \<Rightarrow> http_outcome"
  url_hostname :: "string \<Rightarrow> string option"
  gethostbyname :: "string \<Rightarrow> bool"

text \<open>
  Every integer type of the sysctl interface has at most 64 bits, signed or unsigned.
\<close>

definition sysctl_integer :: "int \<Rightarrow> bool" where
  "sysctl_integer n \<longleftrightarrow> - (2 ^ 63) \<le> n \<and> n < 2 ^ 64"

section \<open>The application state\<close>

text \<open>
  What a label is asked to show. The characters a format produces are not modelled,
  only the format and the values it is applied to: \<open>FormatValue v\<close> is
  \<^verbatim>\<open>"{}".format(v)\<close>, \<open>FormatCpm n\<close> is \<^verbatim>\<open>"%3u" % n\<close>, \<open>FormatRad x\<close> is
  \<^verbatim>\<open>"%1.2f" % x\<close> and \<open>FormatStatus v d\<close> is
  \<^verbatim>\<open>"Ugmt: %3.2fV, Duty: %3.2f%%" % (v, d)\<close>.
\<close>

datatype ltext =
    LitText string
  | FormatValue pyval
  | FormatCpm int
  | FormatRad pyfloat
  | FormatStatus pyfloat pyfloat

text \<open>
  A \<^verbatim>\<open>Gtk.Label\<close> with its style context: the texts it was given by
  \<^verbatim>\<open>set_text\<close>, latest first, and its style classes. The class \<^verbatim>\<open>value-error\<close>
  is the error flag of the slot the label displays.
\<close>

record gtk_label =
  shown :: "ltext list"
  style_classes :: "string set"

definition set_text :: "ltext \<Rightarrow> gtk_label \<Rightarrow> gtk_label" where
  "set_text t l = l\<lparr>shown := t # shown l\<rparr>"

definition add_class :: "string \<Rightarrow> gtk_label \<Rightarrow> gtk_label" where
  "add_class c l = l\<lparr>style_classes := insert c (style_classes l)\<rparr>"

definition remove_class :: "string \<Rightarrow> gtk_label \<Rightarrow> gtk_label" where
  "remove_class c l = l\<lparr>style_classes := style_classes l - {c}\<rparr>"

definition has_error :: "gtk_label \<Rightarrow> bool" where
  "has_error l \<longleftrightarrow> ''value-error'' \<in> style_classes l"

text \<open>
  A line on standard output or standard error (without its line terminator). The text
  of a \<^verbatim>\<open>RequestException\<close> and the padding of \<^verbatim>\<open>"%-2s  %-12s %s"\<close> are not
  modelled.
\<close>

datatype out_line =
    Line string
  | FetchErrorLine string request_exception
  | SensorRow string pyval pyval

text \<open>
  The attributes of \<^verbatim>\<open>HomeSensorsApp\<close>. \<open>sensors\<close> is the dict of dicts, in
  insertion order. \<open>rad\<close> is \<open>None\<close> until \<^verbatim>\<open>self.rad\<close> is first assigned.
\<close>

record app =
  sensnum :: int
  sensors :: "(string \<times> (string \<times> pyval) list) list"
  lflag :: bool
  Uflag :: bool
  Tflag :: string
  Hflag :: string
  uradmon_id :: "string option"
  uradmon_userid :: "string option"
  uradmon_userkey :: "string option"
  uradmon_api :: string
  temperature :: pyval
  humidity :: pyval
  cpm :: pyval
  rad :: "pyfloat option"
  tempvalue :: gtk_label
  humvalue :: gtk_label
  cpmvalue :: gtk_label
  radvalue :: gtk_label
  mainlabel :: gtk_label
  stdout :: "out_line list"
  stderr :: "out_line list"

section \<open>fetch_uradmon_data\<close>

text \<open>
  One GET of the API URL with the two credential headers and no timeout argument. Any
  \<^verbatim>\<open>RequestException\<close>, from the request, from \<^verbatim>\<open>raise_for_status\<close> or from
  decoding the body (requests 2.27 and later), is written to standard error and the
  result is \<^verbatim>\<open>None\<close>. A body that is the JSON \<^verbatim>\<open>null\<close> is returned as it is, which
  is \<^verbatim>\<open>None\<close> as well.
\<close>

definition fetch_request :: "app \<Rightarrow> http_request" where
  "fetch_request s =
     \<lparr>req_url = uradmon_api s,
      req_headers = [(''X-User-Id'', uradmon_userid s), (''X-User-Hash'', uradmon_userkey s)],
      req_timeout = None\<rparr>"

definition fetch_failed :: "request_exception \<Rightarrow> app \<Rightarrow> json_doc option \<times> app" where
  "fetch_failed e s = (None, s\<lparr>stderr := stderr s @ [FetchErrorLine (uradmon_api s) e]\<rparr>)"

definition fetch_uradmon_data :: "environment \<Rightarrow> app \<Rightarrow> json_doc option \<times> app" where
  "fetch_uradmon_data env s =
     (case http_get env (fetch_request s) of
        RequestFailed e \<Rightarrow> fetch_failed e s
      | Response code body \<Rightarrow>
          (case raise_for_status code of
             Inl e \<Rightarrow> fetch_failed e s
           | Inr u \<Rightarrow>
               (case body of
                  NotJson \<Rightarrow> fetch_failed JSONDecodeError s
                | JsonNull \<Rightarrow> (None, s)
                | Json d \<Rightarrow> (Some d, s))))"

section \<open>do_update_values\<close>

text \<open>
  \<^verbatim>\<open>Sysctl("dev.gpioths.{}.{}".format(self.sensnum, leaf)).value\<close>
\<close>

definition sysctl_name :: "app \<Rightarrow> string \<Rightarrow> string" where
  "sysctl_name s leaf = ''dev.gpioths.'' @ str_int (sensnum s) @ ''.'' @ leaf"

definition read_sensor :: "environment \<Rightarrow> app \<Rightarrow> string \<Rightarrow> int option" where
  "read_sensor env s leaf = sysctl_value env (sysctl_name s leaf)"

text \<open>
  The temperature block. The conversion comes first and is the only step that can
  raise, so a raise leaves the state as it was.
\<close>

definition temperature_block :: "int option \<Rightarrow> app \<Rightarrow> py_error + app" where
  "temperature_block newtemperature s =
     (case newtemperature of
        None \<Rightarrow> Inr (s\<lparr>tempvalue := add_class ''value-error'' (tempvalue s)\<rparr>)
      | Some raw \<Rightarrow>
          (case int_true_div (raw - 2731) 10 of
             Inl e \<Rightarrow> Inl e
           | Inr t \<Rightarrow>
               (let s1 = s\<lparr>tempvalue := remove_class ''value-error'' (tempvalue s)\<rparr>
                in Inr (if py_ne (PFloat t) (temperature s1)
                        then s1\<lparr>tempvalue := set_text (FormatValue (PFloat t)) (tempvalue s1),
                                temperature := PFloat t\<rparr>
                        else s1))))"

definition humidity_block :: "int option \<Rightarrow> app \<Rightarrow> app" where
  "humidity_block newhumidity s =
     (case newhumidity of
        None \<Rightarrow> s\<lparr>humvalue := add_class ''value-error'' (humvalue s)\<rparr>
      | Some raw \<Rightarrow>
          (let s1 = s\<lparr>humvalue := remove_class ''value-error'' (humvalue s)\<rparr>
           in if py_ne (PInt raw) (humidity s1)
              then s1\<lparr>humvalue := set_text (FormatValue (PInt raw)) (humvalue s1),
                      humidity := PInt raw\<rparr>
              else s1))"

text \<open>
  The five variables the scan assigns together at a matching record. Before the first
  match \<^verbatim>\<open>umstatus\<close> and \<^verbatim>\<open>umcpm\<close> are \<^verbatim>\<open>None\<close> and the other three are unbound:
  that state is \<open>None\<close> here.
\<close>

record match_vars =
  umstatus :: pyval
  umcpm :: pyval
  umfactor :: pyval
  umvoltage :: pyval
  umduty :: pyval

definition read_fields :: "json_item \<Rightarrow> py_error + match_vars" where
  "read_fields item =
     (case getitem item ''status'' of Inl e \<Rightarrow> Inl e | Inr st \<Rightarrow>
      case getitem item ''avg_cpm'' of Inl e \<Rightarrow> Inl e | Inr c \<Rightarrow>
      case getitem item ''factor'' of Inl e \<Rightarrow> Inl e | Inr f \<Rightarrow>
      case getitem item ''avg_voltage'' of Inl e \<Rightarrow> Inl e | Inr v \<Rightarrow>
      case getitem item ''avg_duty'' of Inl e \<Rightarrow> Inl e | Inr d \<Rightarrow>
        Inr \<lparr>umstatus = st, umcpm = c, umfactor = f, umvoltage = v, umduty = d\<rparr>)"

text \<open>\<^verbatim>\<open>for item in newurad: if item["id"] == self.uradmon_id: ...\<close>\<close>

fun scan_items :: "pyval \<Rightarrow> json_item list \<Rightarrow> match_vars option \<Rightarrow> py_error + match_vars option"
  where
  "scan_items target [] acc = Inr acc"
| "scan_items target (item # rest) acc =
     (case getitem item ''id'' of
        Inl e \<Rightarrow> Inl e
      | Inr i \<Rightarrow>
          if py_eq i target
          then (case read_fields item of
                  Inl e \<Rightarrow> Inl e
                | Inr v \<Rightarrow> scan_items target rest (Some v))
          else scan_items target rest acc)"

definition id_value :: "string option \<Rightarrow> pyval" where
  "id_value i = (case i of None \<Rightarrow> PNone | Some x \<Rightarrow> PStr x)"

text \<open>The body of \<^verbatim>\<open>if (self.cpm != umcpm)\<close>, statement by statement.\<close>

definition store_cpm :: "match_vars \<Rightarrow> app \<Rightarrow> py_error option \<times> app" where
  "store_cpm v s =
     (let s1 = s\<lparr>cpm := umcpm v\<rparr>
      in case py_float (umcpm v) of Inl e \<Rightarrow> (Some e, s1) | Inr a \<Rightarrow>
         case py_float (umfactor v) of Inl e \<Rightarrow> (Some e, s1) | Inr b \<Rightarrow>
           (let s2 = s1\<lparr>rad := Some (float_mul a b)\<rparr>
            in case py_int (cpm s2) of Inl e \<Rightarrow> (Some e, s2) | Inr n \<Rightarrow>
                 (None, s2\<lparr>cpmvalue := set_text (FormatCpm n) (cpmvalue s2),
                            radvalue := set_text (FormatRad (float_mul a b)) (radvalue s2)\<rparr>)))"

text \<open>The status line, recomputed whether or not the count rate changed.\<close>

definition show_status :: "match_vars \<Rightarrow> app \<Rightarrow> py_error option \<times> app" where
  "show_status v s =
     (case py_float (umvoltage v) of Inl e \<Rightarrow> (Some e, s) | Inr x \<Rightarrow>
      case py_float (umduty v) of Inl e \<Rightarrow> (Some e, s) | Inr d \<Rightarrow>
        (None, s\<lparr>mainlabel := set_text (FormatStatus x (float_div10 d)) (mainlabel s)\<rparr>))"

definition reconcile :: "match_vars option \<Rightarrow> app \<Rightarrow> py_error option \<times> app" where
  "reconcile m s =
     (case m of
        None \<Rightarrow> (None, s)
      | Some v \<Rightarrow>
          if umstatus v \<noteq> PNone \<and> py_eq (umstatus v) (PStr ''1'') \<and> umcpm v \<noteq> PNone
          then (case (if py_ne (cpm s) (umcpm v) then store_cpm v s else (None, s)) of
                  (Some e, s1) \<Rightarrow> (Some e, s1)
                | (None, s1) \<Rightarrow> show_status v s1)
          else (None, s))"

definition uradmon_block :: "environment \<Rightarrow> app \<Rightarrow> py_error option \<times> app" where
  "uradmon_block env s =
     (case fetch_uradmon_data env s of
        (None, s0) \<Rightarrow>
          (None, s0\<lparr>radvalue := add_class ''value-error'' (radvalue s0),
                    cpmvalue := add_class ''value-error'' (cpmvalue s0)\<rparr>)
      | (Some newurad, s0) \<Rightarrow>
          (let s1 = s0\<lparr>radvalue := remove_class ''value-error'' (radvalue s0),
                       cpmvalue := remove_class ''value-error'' (cpmvalue s0)\<rparr>
           in case doc_items newurad of
                Inl e \<Rightarrow> (Some e, s1)
              | Inr items \<Rightarrow>
                  (case scan_items (id_value (uradmon_id s1)) items None of
                     Inl e \<Rightarrow> (Some e, s1)
                   | Inr m \<Rightarrow> reconcile m s1)))"

text \<open>
  The whole callback: the exception it raised, if any, and the state it left. It
  returns \<^verbatim>\<open>True\<close> otherwise.
\<close>

definition do_update_values :: "environment \<Rightarrow> app \<Rightarrow> py_error option \<times> app" where
  "do_update_values env s =
     (case temperature_block (read_sensor env s (Tflag s)) s of
        Inl e \<Rightarrow> (Some e, s)
      | Inr s1 \<Rightarrow>
          (let s2 = humidity_block (read_sensor env s (Hflag s)) s1
           in if Uflag s2 then uradmon_block env s2 else (None, s2)))"

definition after_poll :: "environment \<Rightarrow> app \<Rightarrow> app" where
  "after_poll env s = snd (do_update_values env s)"

definition poll_error :: "environment \<Rightarrow> app \<Rightarrow> py_error option" where
  "poll_error env s = fst (do_update_values env s)"

text \<open>
  What \<^verbatim>\<open>__init__\<close> leaves behind once the arguments are checked: the three value
  attributes are \<^verbatim>\<open>None\<close>, \<^verbatim>\<open>self.rad\<close> does not exist yet, and every label is new,
  with its own style class and no text set. Without uRadMonitor the main label is given
  its one text.
\<close>

definition new_label :: "string \<Rightarrow> gtk_label" where
  "new_label c = \<lparr>shown = [], style_classes = {c}\<rparr>"

definition init_widgets :: "app \<Rightarrow> app" where
  "init_widgets s =
     s\<lparr>temperature := PNone, humidity := PNone, cpm := PNone, rad := None,
       mainlabel := (if Uflag s then new_label ''main-label-normal''
                     else set_text (LitText ''uRadMonitor disabled'')
                            (new_label ''main-label-normal'')),
       radvalue := new_label ''radvalue'', cpmvalue := new_label ''cpmvalue'',
       tempvalue := new_label ''tempvalue'', humvalue := new_label ''humvalue''\<rparr>"

text \<open>
  The only values the two local attributes ever hold: \<^verbatim>\<open>None\<close> or a finite float for
  the temperature, \<^verbatim>\<open>None\<close> or an int for the humidity.
\<close>

definition slot_types :: "app \<Rightarrow> bool" where
  "slot_types s \<longleftrightarrow>
     (case temperature s of PNone \<Rightarrow> True | PFloat (FFinite x) \<Rightarrow> True | _ \<Rightarrow> False) \<and>
     (case humidity s of PNone \<Rightarrow> True | PInt n \<Rightarrow> True | _ \<Rightarrow> False)"

text \<open>
  The float nearest to the exact quotient \<open>(raw - 2731) / 10\<close>: what
  \<^verbatim>\<open>newtemperature -= 2731; newtemperature /= 10\<close> computes from a raw reading
  inside the sysctl range.
\<close>

definition celsius :: "int \<Rightarrow> pyfloat" where
  "celsius raw = float_of_rat (of_int (raw - 2731) / 10)"

section \<open>detect_sensors\<close>

text \<open>
  The pattern is \<^verbatim>\<open>r"^{}\.([0-9]+)\.%(\S+)$".format("dev.gpioths")\<close>, that is
  \<^verbatim>\<open>^dev.gpioths\.([0-9]+)\.%(\S+)$\<close>, applied with \<^verbatim>\<open>re.match\<close>: the letters
  \<^verbatim>\<open>dev\<close>, any character but a newline, \<^verbatim>\<open>gpioths\<close>, a point, one or more digits,
  a point, a percent sign, one or more non-space characters, and the end of the name or
  a newline that ends it. Both groups are greedy, and giving back a character never
  helps: the character after a shortened group would be a digit where a point is
  needed, or a non-space character where the name must end.
\<close>

definition expect :: "string \<Rightarrow> string \<Rightarrow> string option" where
  "expect lit s = (if take (length lit) s = lit then Some (drop (length lit) s) else None)"

definition any_but_newline :: "string \<Rightarrow> string option" where
  "any_but_newline s =
     (case s of [] \<Rightarrow> None | c # cs \<Rightarrow> if c = CHR 0x0A then None else Some cs)"

definition match_sensor_name :: "string \<Rightarrow> (string \<times> string) option" where
  "match_sensor_name name =
     (case expect ''dev'' name of None \<Rightarrow> None | Some r1 \<Rightarrow>
      case any_but_newline r1 of None \<Rightarrow> None | Some r2 \<Rightarrow>
      case expect ''gpioths.'' r2 of None \<Rightarrow> None | Some r3 \<Rightarrow>
        (let snum = takeWhile is_digit r3
         in if snum = [] then None
            else case expect ''.%'' (dropWhile is_digit r3) of None \<Rightarrow> None | Some r4 \<Rightarrow>
              (let sprop = takeWhile (\<lambda>c. \<not> py_isspace c) r4;
                   rest = dropWhile (\<lambda>c. \<not> py_isspace c) r4
               in if sprop \<noteq> [] \<and> (rest = [] \<or> rest = [CHR 0x0A])
                  then Some (snum, sprop) else None)))"

text \<open>
  The loop body for one child: \<^verbatim>\<open>self.sensors[_skey][_sprop] = _svalue\<close>, with an
  empty inner dict created first for a new key.
\<close>

definition record_sensor :: "string \<times> pyval \<Rightarrow> (string \<times> (string \<times> pyval) list) list
    \<Rightarrow> (string \<times> (string \<times> pyval) list) list" where
  "record_sensor sens tab =
     (case match_sensor_name (fst sens) of
        None \<Rightarrow> tab
      | Some (skey, sprop) \<Rightarrow>
          (case map_of tab skey of
             None \<Rightarrow> AList.update skey [(sprop, snd sens)] tab
           | Some props \<Rightarrow> AList.update skey (AList.update sprop (snd sens) props) tab))"

definition record_sensors :: "(string \<times> pyval) list \<Rightarrow> (string \<times> (string \<times> pyval) list) list
    \<Rightarrow> (string \<times> (string \<times> pyval) list) list" where
  "record_sensors thsens tab = foldl (\<lambda>t sens. record_sensor sens t) tab thsens"

definition detect_sensors :: "environment \<Rightarrow> app \<Rightarrow> bool \<times> app" where
  "detect_sensors env s =
     (case sysctl_children env ''dev.gpioths'' of
        None \<Rightarrow> (False, s)
      | Some thsens \<Rightarrow>
          (let s1 = s\<lparr>sensors := record_sensors thsens (sensors s)\<rparr>
           in if length (sensors s1) < 1 then (False, s1) else (True, s1)))"

text \<open>\<^verbatim>\<open>self.sensors[index][prop]\<close>, where it exists.\<close>

definition sensor_entry :: "(string \<times> (string \<times> pyval) list) list \<Rightarrow> string \<Rightarrow> string
    \<Rightarrow> pyval option" where
  "sensor_entry tab skey sprop =
     (case map_of tab skey of None \<Rightarrow> None | Some props \<Rightarrow> map_of props sprop)"

section \<open>check_args and what it calls\<close>

text \<open>
  \<^verbatim>\<open>list_sensors\<close> prints a heading and one row per sensor; a sensor without a
  \<^verbatim>\<open>driver\<close> or a \<^verbatim>\<open>desc\<close> entry raises \<^verbatim>\<open>KeyError\<close> after the rows before it
  are printed.
\<close>

fun list_rows :: "(string \<times> (string \<times> pyval) list) list \<Rightarrow> out_line list
    \<Rightarrow> py_error option \<times> out_line list" where
  "list_rows [] out = (None, out)"
| "list_rows ((skey, props) # rest) out =
     (case map_of props ''driver'' of
        None \<Rightarrow> (Some (KeyError ''driver''), out)
      | Some drv \<Rightarrow>
          (case map_of props ''desc'' of
             None \<Rightarrow> (Some (KeyError ''desc''), out)
           | Some dsc \<Rightarrow> list_rows rest (out @ [SensorRow skey drv dsc])))"

definition list_sensors :: "app \<Rightarrow> py_error option \<times> app" where
  "list_sensors s =
     (if 0 < length (sensors s)
      then (case list_rows (sensors s) (stdout s @ [Line ''ID  Driver       Description''])
            of (e, out) \<Rightarrow> (e, s\<lparr>stdout := out\<rparr>))
      else (None, s))"

definition is_hostname_resolvable :: "environment \<Rightarrow> string \<Rightarrow> py_error + bool" where
  "is_hostname_resolvable env url =
     (case url_hostname env url of
        None \<Rightarrow> Inl TypeError
      | Some hostname \<Rightarrow> Inr (gethostbyname env hostname))"

definition probe_request :: "string \<Rightarrow> http_request" where
  "probe_request url = \<lparr>req_url = url, req_headers = [], req_timeout = Some 5\<rparr>"

definition webserver_reachable :: "environment \<Rightarrow> string \<Rightarrow> bool" where
  "webserver_reachable env url =
     (case http_get env (probe_request url) of
        RequestFailed e \<Rightarrow> False
      | Response code body \<Rightarrow> code div 100 = 2)"

text \<open>
  How \<^verbatim>\<open>check_args\<close> ends: it returns a value, it leaves the process through
  \<^verbatim>\<open>sys.exit\<close> with a status, or an exception passes through it.
\<close>

datatype outcome = Returned bool | Exited int | Raised py_error

definition warn_parameters :: string where
  "warn_parameters =
     ''WARNING: uRadMonitor parameters are not specified, disabling uRadMonitor.''"

definition warn_api :: "string \<Rightarrow> string" where
  "warn_api url =
     ''WARNING: uRadMon API URL '' @ url
       @ '' does not resolve and/or respond, disabling uRadMontitor.''"

definition disable_unconfigured :: "app \<Rightarrow> app" where
  "disable_unconfigured s =
     (if Uflag s \<and> (uradmon_id s = None \<or> uradmon_userid s = None \<or> uradmon_userkey s = None)
      then s\<lparr>stdout := stdout s @ [Line warn_parameters], Uflag := False\<rparr>
      else s)"

definition probe_api :: "environment \<Rightarrow> app \<Rightarrow> outcome \<times> app" where
  "probe_api env s =
     (if Uflag s
      then (case is_hostname_resolvable env (uradmon_api s) of
              Inl e \<Rightarrow> (Raised e, s)
            | Inr resolves \<Rightarrow>
                if \<not> resolves \<or> \<not> webserver_reachable env (uradmon_api s)
                then (Returned True,
                      s\<lparr>Uflag := False, stdout := stdout s @ [Line (warn_api (uradmon_api s))]\<rparr>)
                else (Returned True, s))
      else (Returned True, s))"

definition check_args :: "environment \<Rightarrow> app \<Rightarrow> outcome \<times> app" where
  "check_args env s =
     (let s1 = disable_unconfigured s
      in case detect_sensors env s1 of
           (False, s2) \<Rightarrow>
             (Exited 1, s2\<lparr>stderr := stderr s2 @ [Line ''ERROR: No sensor(s) detected!'']\<rparr>)
         | (True, s2) \<Rightarrow>
             if lflag s2
             then (case list_sensors s2 of
                     (Some e, s3) \<Rightarrow> (Raised e, s3)
                   | (None, s3) \<Rightarrow> (Exited 1, s3))
             else if map_of (sensors s2) (str_int (sensnum s2)) = None
             then (Exited 1,
                   s2\<lparr>stderr := stderr s2 @ [Line ''ERROR: Invalid sensor number specified!'']\<rparr>)
             else probe_api env s2)"

section \<open>Concrete runs\<close>

text \<open>
  The class attributes as the source declares them; the instance attributes, which do
  not exist before \<^verbatim>\<open>__init__\<close> sets them, hold what \<open>init_widgets\<close> will give them.
\<close>

definition class_defaults :: app where
  "class_defaults =
     \<lparr>sensnum = 0, sensors = [], lflag = False, Uflag = True,
      Tflag = ''temperature'', Hflag = ''humidity'',
      uradmon_id = None, uradmon_userid = None, uradmon_userkey = None,
      uradmon_api = ''https://data.uradmonitor.com/api/v1/devices'',
      temperature = PNone, humidity = PNone, cpm = PNone, rad = None,
      tempvalue = new_label ''tempvalue'', humvalue = new_label ''humvalue'',
      cpmvalue = new_label ''cpmvalue'', radvalue = new_label ''radvalue'',
      mainlabel = new_label ''main-label-normal'', stdout = [], stderr = []\<rparr>"

text \<open>
  The application started with a device id, a user id and a user key, sensor 0
  detected, ready for its first poll.
\<close>

definition started :: "string \<Rightarrow> app" where
  "started device =
     init_widgets
       (class_defaults
          \<lparr>sensors := [(''0'', [(''driver'', PStr ''gpioths''), (''desc'', PStr ''DHT22'')])],
           uradmon_id := Some device, uradmon_userid := Some ''user'',
           uradmon_userkey := Some ''key''\<rparr>)"

text \<open>
  An environment in which sensor 0 yields the two given readings, every GET has the
  given outcome, and the sysctl tree has the given children.
\<close>

definition world :: "int option \<Rightarrow> int option \<Rightarrow> http_outcome
    \<Rightarrow> (string \<times> pyval) list option \<Rightarrow> environment" where
  "world t h answer children =
     \<lparr>sysctl_value = (\<lambda>name. if name = ''dev.gpioths.0.temperature'' then t
                             else if name = ''dev.gpioths.0.humidity'' then h else None),
      sysctl_children = (\<lambda>name. if name = ''dev.gpioths'' then children else None),
      http_get = (\<lambda>request. answer),
      url_hostname = (\<lambda>url. Some ''data.uradmonitor.com''),
      gethostbyname = (\<lambda>hostname. True)\<rparr>"

text \<open>
  The float that Python reads from \<^verbatim>\<open>0.01\<close>, telemetry records with that factor, a
  voltage of 380 and a duty of 500, the array of the specification's example, and an
  array in which the device \<^verbatim>\<open>B\<close> occurs twice.
\<close>

definition hundredth :: pyfloat where
  "hundredth = FFinite (5764607523034235 / 576460752303423488)"

definition telemetry :: "string \<Rightarrow> string \<Rightarrow> pyval \<Rightarrow> json_item" where
  "telemetry ident status count =
     JObject (map_of [(''id'', PStr ident), (''status'', PStr status), (''avg_cpm'', count),
                      (''factor'', PFloat hundredth), (''avg_voltage'', PInt 380),
                      (''avg_duty'', PInt 500)])"

definition two_records :: "json_item list" where
  "two_records = [telemetry ''A'' ''0'' (PInt 15), telemetry ''B'' ''1'' (PInt 12)]"

definition duplicate_records :: "json_item list" where
  "duplicate_records =
     [telemetry ''B'' ''1'' (PInt 15), telemetry ''A'' ''1'' (PInt 99),
      telemetry ''B'' ''0'' (PInt 12)]"

section \<open>Notions used in the statements\<close>

text \<open>The attributes the two local blocks read or write.\<close>

definition local_slots :: "app \<Rightarrow> pyval \<times> pyval \<times> gtk_label \<times> gtk_label \<times> string \<times> string \<times> int" where
  "local_slots s = (temperature s, humidity s, tempvalue s, humvalue s, Tflag s, Hflag s, sensnum s)"

text \<open>The value of a field of an array element, where the element is an object that has the field.\<close>

definition field :: "json_item \<Rightarrow> string \<Rightarrow> pyval option" where
  "field item k = (case getitem item k of Inl e \<Rightarrow> None | Inr v \<Rightarrow> Some v)"

text \<open>\<^verbatim>\<open>item["id"] == self.uradmon_id\<close>, for an element whose \<^verbatim>\<open>id\<close> can be read.\<close>

definition id_matches :: "pyval \<Rightarrow> json_item \<Rightarrow> bool" where
  "id_matches target item = (case field item ''id'' of None \<Rightarrow> False | Some i \<Rightarrow> py_eq i target)"

text \<open>The last element of the array, in array order, whose identifier matches.\<close>

definition last_match :: "pyval \<Rightarrow> json_item list \<Rightarrow> json_item option" where
  "last_match target items =
     (case filter (id_matches target) items of [] \<Rightarrow> None | m # ms \<Rightarrow> Some (last (m # ms)))"

text \<open>An array element with the six fields the program reads.\<close>

definition telemetry_record :: "json_item \<Rightarrow> bool" where
  "telemetry_record item \<longleftrightarrow>
     list_all (\<lambda>k. field item k \<noteq> None)
       [''id'', ''status'', ''avg_cpm'', ''factor'', ''avg_voltage'', ''avg_duty'']"

text \<open>The attributes the uRadMonitor block reads or writes.\<close>

definition remote_slots :: "app \<Rightarrow> bool \<times> string option \<times> string option \<times> string option \<times> string
    \<times> pyval \<times> pyfloat option \<times> gtk_label \<times> gtk_label \<times> gtk_label \<times> out_line list" where
  "remote_slots s =
     (Uflag s, uradmon_id s, uradmon_userid s, uradmon_userkey s, uradmon_api s,
      cpm s, rad s, cpmvalue s, radvalue s, mainlabel s, stderr s)"

text \<open>The two \<^verbatim>\<open>remove_class("value-error")\<close> calls after a successful fetch.\<close>

definition clear_flags :: "app \<Rightarrow> app" where
  "clear_flags s =
     s\<lparr>radvalue := remove_class ''value-error'' (radvalue s),
       cpmvalue := remove_class ''value-error'' (cpmvalue s)\<rparr>"

text \<open>The two \<^verbatim>\<open>add_class("value-error")\<close> calls after a failed fetch.\<close>

definition set_flags :: "app \<Rightarrow> app" where
  "set_flags s =
     s\<lparr>radvalue := add_class ''value-error'' (radvalue s),
       cpmvalue := add_class ''value-error'' (cpmvalue s)\<rparr>"

text \<open>The two nested conditions under which \<^verbatim>\<open>self.cpm\<close> is assigned.\<close>

definition writes_cpm :: "match_vars option \<Rightarrow> app \<Rightarrow> bool" where
  "writes_cpm m s \<longleftrightarrow>
     (case m of None \<Rightarrow> False
      | Some v \<Rightarrow> umstatus v = PStr ''1'' \<and> umcpm v \<noteq> PNone \<and> py_ne (cpm s) (umcpm v))"

text \<open>What \<^verbatim>\<open>fetch_uradmon_data\<close> returns.\<close>

definition fetched :: "environment \<Rightarrow> app \<Rightarrow> json_doc option" where
  "fetched env s = fst (fetch_uradmon_data env s)"

text \<open>No element matches, or the last match has a status other than \<^verbatim>\<open>"1"\<close>, or it has no count rate (the key is missing or its value is \<^verbatim>\<open>null\<close>).\<close>

definition no_valid_record :: "pyval \<Rightarrow> json_item list \<Rightarrow> bool" where
  "no_valid_record target items \<longleftrightarrow>
     (case last_match target items of
        None \<Rightarrow> True
      | Some m \<Rightarrow>
          field m ''status'' \<noteq> Some (PStr ''1'') \<or> field m ''avg_cpm'' = None \<or>
          field m ''avg_cpm'' = Some PNone)"

section \<open>The two local slots\<close>

text \<open>
  The uRadMonitor block leaves the temperature and humidity slots, the two leaf names
  and the sensor number alone.
\<close>

lemma fetch_local: "fetch_uradmon_data env s = (d, s') \<Longrightarrow> local_slots s' = local_slots s"
  by (auto simp: fetch_uradmon_data_def fetch_failed_def local_slots_def
      split: http_outcome.splits sum.splits http_body.splits)

lemma store_cpm_local: "store_cpm v s = (e, s') \<Longrightarrow> local_slots s' = local_slots s"
  by (auto simp: store_cpm_def local_slots_def Let_def split: sum.splits)

lemma show_status_local: "show_status v s = (e, s') \<Longrightarrow> local_slots s' = local_slots s"
  by (auto simp: show_status_def local_slots_def split: sum.splits)

lemma reconcile_local: "reconcile m s = (e, s') \<Longrightarrow> local_slots s' = local_slots s"
  unfolding reconcile_def
  by (auto split: option.splits if_splits prod.splits dest!: store_cpm_local show_status_local)

lemma uradmon_block_local: "uradmon_block env s = (e, s') \<Longrightarrow> local_slots s' = local_slots s"
  unfolding uradmon_block_def
  by (auto simp: Let_def local_slots_def split: option.splits prod.splits sum.splits
      dest!: fetch_local reconcile_local)

lemma sysctl_integer_no_overflow:
  assumes "sysctl_integer n"
  shows "int_true_div (n - 2731) 10 = Inr (celsius n)"
proof -
  have "\<bar>(of_int (n - 2731) :: rat) / 10\<bar> \<le> 2 ^ 64"
    using assms by (simp add: sysctl_integer_def abs_le_iff) 
  then have "\<not> binary64_overflows (of_int (n - 2731) / 10)"
    by (simp add: binary64_overflows_def)
  then show ?thesis by (simp add: int_true_div_def celsius_def float_of_rat_def)
qed

lemma do_update_values_local:
  "local_slots (snd (do_update_values env s)) =
     (case temperature_block (read_sensor env s (Tflag s)) s of
        Inl e \<Rightarrow> local_slots s
      | Inr s1 \<Rightarrow> local_slots (humidity_block (read_sensor env s (Hflag s)) s1))"
proof (cases "temperature_block (read_sensor env s (Tflag s)) s")
  case (Inl e)
  then show ?thesis by (simp add: do_update_values_def)
next
  case (Inr s1)
  let ?s2 = "humidity_block (read_sensor env s (Hflag s)) s1"
  show ?thesis
  proof (cases "Uflag ?s2")
    case True
    obtain e s3 where u: "uradmon_block env ?s2 = (e, s3)" by (cases "uradmon_block env ?s2")
    from uradmon_block_local [OF u] Inr True u show ?thesis
      by (simp add: do_update_values_def Let_def)
  next
    case False
    with Inr show ?thesis by (simp add: do_update_values_def Let_def)
  qed
qed

lemma py_eq_float_refl: "py_eq (PFloat (FFinite a)) (PFloat (FFinite a))"
  by simp

lemma py_eq_finite_float: "py_eq (PFloat (FFinite a)) v \<Longrightarrow> v = PNone \<or> (\<exists>x. v = PFloat x) \<Longrightarrow> v = PFloat (FFinite a)"
  by (cases v) (auto elim: float_eq.elims)

lemma py_eq_int: "py_eq (PInt a) v \<Longrightarrow> v = PNone \<or> (\<exists>x. v = PInt x) \<Longrightarrow> v = PInt a"
  by (cases v) auto

lemma temperature_block_present:
  assumes "sysctl_integer raw"
  shows "temperature_block (Some raw) s =
     Inr (if py_ne (PFloat (celsius raw)) (temperature s)
          then s\<lparr>tempvalue := set_text (FormatValue (PFloat (celsius raw)))
                             (remove_class ''value-error'' (tempvalue s)),
                temperature := PFloat (celsius raw)\<rparr>
          else s\<lparr>tempvalue := remove_class ''value-error'' (tempvalue s)\<rparr>)"
  by (simp add: temperature_block_def sysctl_integer_no_overflow [OF assms] Let_def)

lemma float_of_rat_not_nan: "float_of_rat x \<noteq> FNaN"
  by (simp add: float_of_rat_def)

lemma float_eq_refl: "x \<noteq> FNaN \<Longrightarrow> float_eq x x"
  by (cases x) simp_all

lemma celsius_self: "py_eq (PFloat (celsius raw)) (PFloat (celsius raw))"
  by (simp add: celsius_def float_eq_refl float_of_rat_not_nan)

lemma py_ne_celsius: "py_ne (PFloat (celsius raw)) v \<Longrightarrow> v \<noteq> PFloat (celsius raw)"
  using celsius_self [of raw] by (auto simp: py_ne_def)

lemma py_ne_int: "py_ne (PInt n) v \<Longrightarrow> v \<noteq> PInt n"
  by (auto simp: py_ne_def)

lemma temperature_slot:
  assumes "read_sensor env s (Tflag s) = Some raw" and "sysctl_integer raw"
  shows "temperature (after_poll env s) =
           (if py_ne (PFloat (celsius raw)) (temperature s) then PFloat (celsius raw) else temperature s)"
    and "shown (tempvalue (after_poll env s)) =
           (if py_ne (PFloat (celsius raw)) (temperature s)
            then FormatValue (PFloat (celsius raw)) # shown (tempvalue s) else shown (tempvalue s))"
    and "style_classes (tempvalue (after_poll env s)) = style_classes (tempvalue s) - {''value-error''}"
  using do_update_values_local [of env s] assms
  by (auto simp: after_poll_def local_slots_def temperature_block_present humidity_block_def
      Let_def set_text_def remove_class_def add_class_def split: option.splits)

lemma temperature_slot_absent:
  assumes "read_sensor env s (Tflag s) = None"
  shows "temperature (after_poll env s) = temperature s"
    and "shown (tempvalue (after_poll env s)) = shown (tempvalue s)"
    and "style_classes (tempvalue (after_poll env s)) = insert ''value-error'' (style_classes (tempvalue s))"
  using do_update_values_local [of env s] assms
  by (auto simp: after_poll_def local_slots_def temperature_block_def humidity_block_def
      Let_def set_text_def remove_class_def add_class_def split: option.splits)

lemma temperature_block_ok:
  assumes "\<forall>raw. t = Some raw \<longrightarrow> sysctl_integer raw"
  shows "\<exists>s1. temperature_block t s = Inr s1 \<and> humidity s1 = humidity s \<and> humvalue s1 = humvalue s"
proof (cases t)
  case None
  then show ?thesis by (simp add: temperature_block_def)
next
  case (Some raw)
  with assms have "sysctl_integer raw" by simp
  with Some show ?thesis by (simp add: temperature_block_present)
qed

lemma humidity_block_present:
  "humidity (humidity_block (Some raw) s) =
     (if py_ne (PInt raw) (humidity s) then PInt raw else humidity s)"
  "shown (humvalue (humidity_block (Some raw) s)) =
     (if py_ne (PInt raw) (humidity s)
      then FormatValue (PInt raw) # shown (humvalue s) else shown (humvalue s))"
  "style_classes (humvalue (humidity_block (Some raw) s)) =
     style_classes (humvalue s) - {''value-error''}"
  by (simp_all add: humidity_block_def Let_def set_text_def remove_class_def)

lemma humidity_block_absent:
  "humidity (humidity_block None s) = humidity s"
  "shown (humvalue (humidity_block None s)) = shown (humvalue s)"
  "style_classes (humvalue (humidity_block None s)) =
     insert ''value-error'' (style_classes (humvalue s))"
  by (simp_all add: humidity_block_def add_class_def)

lemma humidity_after_poll:
  assumes "\<forall>raw. read_sensor env s (Tflag s) = Some raw \<longrightarrow> sysctl_integer raw"
  shows "\<exists>s1. humidity s1 = humidity s \<and> humvalue s1 = humvalue s \<and>
      humidity (after_poll env s) = humidity (humidity_block (read_sensor env s (Hflag s)) s1) \<and>
      humvalue (after_poll env s) = humvalue (humidity_block (read_sensor env s (Hflag s)) s1)"
proof -
  from temperature_block_ok [OF assms, of s] obtain s1
    where s1: "temperature_block (read_sensor env s (Tflag s)) s = Inr s1"
      "humidity s1 = humidity s" "humvalue s1 = humvalue s" by blast
  from do_update_values_local [of env s] s1(1)
  have "local_slots (after_poll env s)
      = local_slots (humidity_block (read_sensor env s (Hflag s)) s1)"
    by (simp add: after_poll_def)
  then show ?thesis using s1(2,3) by (auto simp: local_slots_def)
qed

lemma humidity_slot:
  assumes "\<forall>raw. read_sensor env s (Tflag s) = Some raw \<longrightarrow> sysctl_integer raw"
    and "read_sensor env s (Hflag s) = Some raw"
  shows "humidity (after_poll env s) =
           (if py_ne (PInt raw) (humidity s) then PInt raw else humidity s)"
    and "shown (humvalue (after_poll env s)) =
           (if py_ne (PInt raw) (humidity s)
            then FormatValue (PInt raw) # shown (humvalue s) else shown (humvalue s))"
    and "style_classes (humvalue (after_poll env s)) = style_classes (humvalue s) - {''value-error''}"
  using humidity_after_poll [OF assms(1)] assms(2)
  by (auto simp: humidity_block_present)

lemma humidity_slot_absent:
  assumes "\<forall>raw. read_sensor env s (Tflag s) = Some raw \<longrightarrow> sysctl_integer raw"
    and "read_sensor env s (Hflag s) = None"
  shows "humidity (after_poll env s) = humidity s"
    and "shown (humvalue (after_poll env s)) = shown (humvalue s)"
    and "style_classes (humvalue (after_poll env s)) = insert ''value-error'' (style_classes (humvalue s))"
  using humidity_after_poll [OF assms(1)] assms(2)
  by (auto simp: humidity_block_absent)

lemma after_poll_names:
  "Tflag (after_poll env s) = Tflag s" "Hflag (after_poll env s) = Hflag s"
  "sensnum (after_poll env s) = sensnum s"
  using do_update_values_local [of env s]
  by (auto simp: after_poll_def local_slots_def temperature_block_def humidity_block_def
      Let_def split: option.splits sum.splits if_splits)

lemma read_sensor_after_poll:
  "sysctl_value env2 = sysctl_value env \<Longrightarrow>
   read_sensor env2 (after_poll env s) leaf = read_sensor env s leaf"
  by (simp add: read_sensor_def sysctl_name_def after_poll_names)


lemma temperature_change:
  assumes rng: "\<forall>raw. read_sensor env s (Tflag s) = Some raw \<longrightarrow> sysctl_integer raw"
    and that: "read_sensor env s (Tflag s) = Some raw"
  shows "(temperature (after_poll env s) \<noteq> temperature s \<longleftrightarrow> py_ne (PFloat (celsius raw)) (temperature s)) \<and>
        (py_ne (PFloat (celsius raw)) (temperature s) \<longrightarrow>
           temperature (after_poll env s) = PFloat (celsius raw) \<and>
           shown (tempvalue (after_poll env s)) = FormatValue (PFloat (celsius raw)) # shown (tempvalue s)) \<and>
        (\<not> py_ne (PFloat (celsius raw)) (temperature s) \<longrightarrow>
           shown (tempvalue (after_poll env s)) = shown (tempvalue s)) \<and>
        \<not> has_error (tempvalue (after_poll env s))"
proof -
  from rng that have "sysctl_integer raw" by simp
  note ts = temperature_slot [OF that this]
  show ?thesis
  proof (cases "py_ne (PFloat (celsius raw)) (temperature s)")
    case True
    with py_ne_celsius [OF True] show ?thesis by (simp add: ts has_error_def)
  next
    case False
    then show ?thesis by (simp add: ts has_error_def)
  qed
qed

lemma humidity_change:
  assumes rng: "\<forall>raw. read_sensor env s (Tflag s) = Some raw \<longrightarrow> sysctl_integer raw"
    and that: "read_sensor env s (Hflag s) = Some raw"
  shows "(humidity (after_poll env s) \<noteq> humidity s \<longleftrightarrow> py_ne (PInt raw) (humidity s)) \<and>
        (py_ne (PInt raw) (humidity s) \<longrightarrow>
           humidity (after_poll env s) = PInt raw \<and>
           shown (humvalue (after_poll env s)) = FormatValue (PInt raw) # shown (humvalue s)) \<and>
        (\<not> py_ne (PInt raw) (humidity s) \<longrightarrow>
           shown (humvalue (after_poll env s)) = shown (humvalue s)) \<and>
        \<not> has_error (humvalue (after_poll env s))"
proof -
  note hs = humidity_slot [OF rng that]
  show ?thesis
  proof (cases "py_ne (PInt raw) (humidity s)")
    case True
    with py_ne_int [OF True] show ?thesis by (simp add: hs has_error_def)
  next
    case False
    then show ?thesis by (simp add: hs has_error_def)
  qed
qed

lemma temperature_repeat:
  assumes rng: "\<forall>raw. read_sensor env s (Tflag s) = Some raw \<longrightarrow> sysctl_integer raw"
    and same: "sysctl_value env2 = sysctl_value env"
  shows "temperature (after_poll env2 (after_poll env s)) = temperature (after_poll env s)"
    and "shown (tempvalue (after_poll env2 (after_poll env s))) = shown (tempvalue (after_poll env s))"
    and "has_error (tempvalue (after_poll env2 (after_poll env s)))
           = has_error (tempvalue (after_poll env s))"
proof -
  let ?s1 = "after_poll env s"
  have rd: "read_sensor env2 ?s1 (Tflag ?s1) = read_sensor env s (Tflag s)"
    by (simp add: read_sensor_after_poll [OF same] after_poll_names)
  have "temperature (after_poll env2 ?s1) = temperature ?s1 \<and>
      shown (tempvalue (after_poll env2 ?s1)) = shown (tempvalue ?s1) \<and>
      has_error (tempvalue (after_poll env2 ?s1)) = has_error (tempvalue ?s1)"
  proof (cases "read_sensor env s (Tflag s)")
    case None
    with rd have n2: "read_sensor env2 ?s1 (Tflag ?s1) = None" by simp
    show ?thesis
      by (simp add: temperature_slot_absent [OF None] temperature_slot_absent [OF n2] has_error_def)
  next
    case (Some raw)
    with rd have s2: "read_sensor env2 ?s1 (Tflag ?s1) = Some raw" by simp
    from rng Some have ok: "sysctl_integer raw" by simp
    have again: "\<not> py_ne (PFloat (celsius raw)) (temperature ?s1)"
      using celsius_self [of raw] by (simp add: temperature_slot [OF Some ok] py_ne_def)
    show ?thesis
      by (simp add: temperature_slot [OF s2 ok] again has_error_def)
        (simp add: temperature_slot [OF Some ok])
  qed
  then show "temperature (after_poll env2 ?s1) = temperature ?s1"
    and "shown (tempvalue (after_poll env2 ?s1)) = shown (tempvalue ?s1)"
    and "has_error (tempvalue (after_poll env2 ?s1)) = has_error (tempvalue ?s1)"
    by simp_all
qed

lemma humidity_repeat:
  assumes rng: "\<forall>raw. read_sensor env s (Tflag s) = Some raw \<longrightarrow> sysctl_integer raw"
    and same: "sysctl_value env2 = sysctl_value env"
  shows "humidity (after_poll env2 (after_poll env s)) = humidity (after_poll env s)"
    and "shown (humvalue (after_poll env2 (after_poll env s))) = shown (humvalue (after_poll env s))"
    and "has_error (humvalue (after_poll env2 (after_poll env s)))
           = has_error (humvalue (after_poll env s))"
proof -
  let ?s1 = "after_poll env s"
  have rd: "read_sensor env2 ?s1 leaf = read_sensor env s leaf" for leaf
    by (rule read_sensor_after_poll [OF same])
  have rng2: "\<forall>raw. read_sensor env2 ?s1 (Tflag ?s1) = Some raw \<longrightarrow> sysctl_integer raw"
    using rng by (simp add: rd after_poll_names)
  have "humidity (after_poll env2 ?s1) = humidity ?s1 \<and>
      shown (humvalue (after_poll env2 ?s1)) = shown (humvalue ?s1) \<and>
      has_error (humvalue (after_poll env2 ?s1)) = has_error (humvalue ?s1)"
  proof (cases "read_sensor env s (Hflag s)")
    case None
    then have n2: "read_sensor env2 ?s1 (Hflag ?s1) = None" by (simp add: rd after_poll_names)
    show ?thesis
      by (simp add: humidity_slot_absent [OF rng None] humidity_slot_absent [OF rng2 n2]
          has_error_def)
  next
    case (Some raw)
    then have s2: "read_sensor env2 ?s1 (Hflag ?s1) = Some raw" by (simp add: rd after_poll_names)
    have again: "\<not> py_ne (PInt raw) (humidity ?s1)"
      by (simp add: humidity_slot [OF rng Some] py_ne_def)
    show ?thesis
      by (simp add: humidity_slot [OF rng2 s2] again has_error_def)
        (simp add: humidity_slot [OF rng Some])
  qed
  then show "humidity (after_poll env2 ?s1) = humidity ?s1"
    and "shown (humvalue (after_poll env2 ?s1)) = shown (humvalue ?s1)"
    and "has_error (humvalue (after_poll env2 ?s1)) = has_error (humvalue ?s1)"
    by simp_all
qed


lemma slot_types_cases:
  "slot_types s \<longleftrightarrow>
     (temperature s = PNone \<or> (\<exists>x. temperature s = PFloat (FFinite x))) \<and>
     (humidity s = PNone \<or> (\<exists>n. humidity s = PInt n))"
  by (auto simp: slot_types_def split: pyval.splits pyfloat.splits)

lemma celsius_finite: "sysctl_integer raw \<Longrightarrow> \<exists>x. celsius raw = FFinite x"
  using sysctl_integer_no_overflow [of raw]
  by (cases "celsius raw") (auto simp: int_true_div_def split: if_splits)

lemma py_eq_celsius_stored:
  assumes "\<not> py_ne (PFloat (celsius raw)) v" and "sysctl_integer raw"
    and "v = PNone \<or> (\<exists>x. v = PFloat (FFinite x))"
  shows "v = PFloat (celsius raw)"
proof -
  from celsius_finite [OF assms(2)] obtain c where c: "celsius raw = FFinite c" by blast
  with assms(1,3) show ?thesis by (auto simp: py_ne_def)
qed

lemma py_eq_int_stored:
  assumes "\<not> py_ne (PInt raw) v" and "v = PNone \<or> (\<exists>n. v = PInt n)"
  shows "v = PInt raw"
  using assms by (auto simp: py_ne_def)

lemma slot_types_init: "slot_types (init_widgets s)"
  by (simp add: slot_types_def init_widgets_def)

lemma slot_types_after_poll:
  assumes "slot_types s"
    and rng: "\<forall>raw. read_sensor env s (Tflag s) = Some raw \<longrightarrow> sysctl_integer raw"
  shows "slot_types (after_poll env s)"
proof -
  have t: "temperature (after_poll env s) = PNone
      \<or> (\<exists>x. temperature (after_poll env s) = PFloat (FFinite x))"
  proof (cases "read_sensor env s (Tflag s)")
    case None
    with assms(1) show ?thesis by (simp add: temperature_slot_absent slot_types_cases)
  next
    case (Some raw)
    with rng have ok: "sysctl_integer raw" by simp
    from celsius_finite [OF ok] assms(1) show ?thesis
      by (auto simp: temperature_slot [OF Some ok] slot_types_cases)
  qed
  have h: "humidity (after_poll env s) = PNone \<or> (\<exists>n. humidity (after_poll env s) = PInt n)"
  proof (cases "read_sensor env s (Hflag s)")
    case None
    with assms(1) show ?thesis by (simp add: humidity_slot_absent [OF rng] slot_types_cases)
  next
    case (Some raw)
    from assms(1) show ?thesis
      by (auto simp: humidity_slot [OF rng Some] slot_types_cases)
  qed
  from t h show ?thesis by (simp add: slot_types_cases)
qed

lemma temperature_stored_equal:
  assumes "read_sensor env s (Tflag s) = Some raw" and "sysctl_integer raw"
  shows "\<not> py_ne (PFloat (celsius raw)) (temperature (after_poll env s))"
  using celsius_self [of raw] by (simp add: temperature_slot [OF assms] py_ne_def)

lemma humidity_stored_equal:
  assumes "\<forall>raw. read_sensor env s (Tflag s) = Some raw \<longrightarrow> sysctl_integer raw"
    and "read_sensor env s (Hflag s) = Some raw"
  shows "\<not> py_ne (PInt raw) (humidity (after_poll env s))"
  by (simp add: humidity_slot [OF assms] py_ne_def)

section \<open>The uRadMonitor block\<close>

lemma last_match_Nil: "last_match target [] = None"
  by (simp add: last_match_def)

lemma last_match_Cons:
  "last_match target (item # rest) =
     (case last_match target rest of
        Some m \<Rightarrow> Some m
      | None \<Rightarrow> if id_matches target item then Some item else None)"
  by (auto simp: last_match_def split: list.splits)

lemma id_matches_getitem:
  "getitem item ''id'' = Inr i \<Longrightarrow> id_matches target item = py_eq i target"
  "getitem item ''id'' = Inl e \<Longrightarrow> \<not> id_matches target item"
  by (simp_all add: id_matches_def field_def)

lemma scan_items_last:
  "scan_items target items acc = Inr r \<Longrightarrow>
     (case last_match target items of
        None \<Rightarrow> r = acc
      | Some m \<Rightarrow> \<exists>v. read_fields m = Inr v \<and> r = Some v)"
proof (induction items arbitrary: acc)
  case Nil
  then show ?case by (simp add: last_match_Nil)
next
  case (Cons item rest)
  show ?case
  proof (cases "getitem item ''id''")
    case (Inl e)
    with Cons.prems show ?thesis by simp
  next
    case (Inr i)
    show ?thesis
    proof (cases "py_eq i target")
      case False
      with Cons.prems Inr have "scan_items target rest acc = Inr r" by simp
      from Cons.IH [OF this] Inr False show ?thesis
        by (simp add: last_match_Cons id_matches_getitem split: option.splits)
    next
      case True
      with Cons.prems Inr obtain v where v: "read_fields item = Inr v"
        and rest: "scan_items target rest (Some v) = Inr r"
        by (auto split: sum.splits)
      from Cons.IH [OF rest] Inr True v show ?thesis
        by (auto simp: last_match_Cons id_matches_getitem split: option.splits)
    qed
  qed
qed

lemma telemetry_record_reads:
  assumes "telemetry_record item"
  shows "\<exists>i. getitem item ''id'' = Inr i" and "\<exists>v. read_fields item = Inr v"
  using assms
  by (auto simp: telemetry_record_def field_def read_fields_def split: sum.splits)

lemma scan_items_ok:
  "list_all telemetry_record items \<Longrightarrow> \<exists>r. scan_items target items acc = Inr r"
proof (induction items arbitrary: acc)
  case Nil
  then show ?case by simp
next
  case (Cons item rest)
  then have "telemetry_record item" and rest: "list_all telemetry_record rest" by simp_all
  from telemetry_record_reads [OF this(1)] obtain i v
    where "getitem item ''id'' = Inr i" "read_fields item = Inr v" by blast
  with Cons.IH [OF rest] show ?case by simp
qed

lemma last_match_member:
  "last_match target items = Some m \<Longrightarrow> m \<in> set items \<and> id_matches target m"
proof (induction items)
  case Nil
  then show ?case by (simp add: last_match_Nil)
next
  case (Cons item rest)
  then show ?case
    by (auto simp: last_match_Cons split: option.splits if_splits)
qed

lemma last_match_single:
  "id_matches target m \<Longrightarrow> last_match target [m] = Some m"
  by (simp add: last_match_def)

lemma py_eq_one: "py_eq v (PStr ''1'') \<longleftrightarrow> v = PStr ''1''"
  by (cases v) auto

lemma read_fields_field:
  assumes "read_fields m = Inr v"
  shows "field m ''status'' = Some (umstatus v)" "field m ''avg_cpm'' = Some (umcpm v)"
    "field m ''factor'' = Some (umfactor v)" "field m ''avg_voltage'' = Some (umvoltage v)"
    "field m ''avg_duty'' = Some (umduty v)"
  using assms by (auto simp: read_fields_def field_def split: sum.splits)

text \<open>Labels and stored values under the three steps of the reconciliation.\<close>

lemma store_cpm_effect:
  assumes "store_cpm v s = (e, s')"
  shows "cpm s' = umcpm v"
    and "style_classes (cpmvalue s') = style_classes (cpmvalue s)"
    and "style_classes (radvalue s') = style_classes (radvalue s)"
    and "mainlabel s' = mainlabel s"
    and "py_float (umcpm v) = Inr a \<Longrightarrow> py_float (umfactor v) = Inr b \<Longrightarrow>
           rad s' = Some (float_mul a b)"
    and "py_float (umcpm v) = Inr a \<Longrightarrow> py_float (umfactor v) = Inr b \<Longrightarrow>
           py_int (umcpm v) = Inr n \<Longrightarrow>
           shown (cpmvalue s') = FormatCpm n # shown (cpmvalue s) \<and>
           shown (radvalue s') = FormatRad (float_mul a b) # shown (radvalue s) \<and> e = None"
  using assms
  by (auto simp: store_cpm_def Let_def set_text_def split: sum.splits)

lemma show_status_effect:
  assumes "show_status v s = (e, s')"
  shows "cpm s' = cpm s" "rad s' = rad s" "cpmvalue s' = cpmvalue s" "radvalue s' = radvalue s"
  using assms by (auto simp: show_status_def split: sum.splits)

lemma reconcile_idle:
  assumes "reconcile m s = (e, s')" and "\<not> writes_cpm m s"
  shows "cpm s' = cpm s" "rad s' = rad s" "cpmvalue s' = cpmvalue s" "radvalue s' = radvalue s"
  using assms
  by (auto simp: reconcile_def writes_cpm_def py_eq_one split: option.splits if_splits
      dest: show_status_effect)

lemma reconcile_write:
  assumes "reconcile (Some v) s = (e, s')" and "writes_cpm (Some v) s"
  shows "\<exists>e1 s1. store_cpm v s = (e1, s1) \<and> cpm s' = cpm s1 \<and> rad s' = rad s1 \<and>
           cpmvalue s' = cpmvalue s1 \<and> radvalue s' = radvalue s1"
proof -
  obtain e1 s1 where st: "store_cpm v s = (e1, s1)" by (cases "store_cpm v s")
  show ?thesis
  proof (cases e1)
    case None
    with assms st have "show_status v s1 = (e, s')"
      by (simp add: reconcile_def writes_cpm_def py_eq_one)
    from show_status_effect [OF this] st show ?thesis by simp
  next
    case (Some x)
    with assms st have "s' = s1"
      by (simp add: reconcile_def writes_cpm_def py_eq_one)
    with st show ?thesis by simp
  qed
qed

lemma reconcile_classes:
  assumes "reconcile m s = (e, s')"
  shows "style_classes (cpmvalue s') = style_classes (cpmvalue s)"
    and "style_classes (radvalue s') = style_classes (radvalue s)"
proof -
  have "style_classes (cpmvalue s') = style_classes (cpmvalue s) \<and>
      style_classes (radvalue s') = style_classes (radvalue s)"
  proof (cases "writes_cpm m s")
    case False
    from reconcile_idle [OF assms False] show ?thesis by simp
  next
    case True
    then obtain v where m: "m = Some v" by (auto simp: writes_cpm_def split: option.splits)
    from reconcile_write [OF assms [unfolded m] True [unfolded m]]
    obtain e1 s1 where "store_cpm v s = (e1, s1)" "cpmvalue s' = cpmvalue s1"
      "radvalue s' = radvalue s1" by blast
    with store_cpm_effect(2,3) [OF this(1)] show ?thesis by simp
  qed
  then show "style_classes (cpmvalue s') = style_classes (cpmvalue s)"
    and "style_classes (radvalue s') = style_classes (radvalue s)" by simp_all
qed

lemma fetched_answer:
  "fetched env s =
     (case http_get env (fetch_request s) of
        RequestFailed e \<Rightarrow> None
      | Response code body \<Rightarrow>
          if 400 \<le> code \<and> code < 600 then None
          else (case body of Json d \<Rightarrow> Some d | _ \<Rightarrow> None))"
proof (cases "http_get env (fetch_request s)")
  case (RequestFailed e)
  then show ?thesis
    by (simp add: fetched_def fetch_uradmon_data_def fetch_failed_def)
next
  case (Response code body)
  then show ?thesis
    by (cases body)
      (simp_all add: fetched_def fetch_uradmon_data_def fetch_failed_def raise_for_status_def)
qed

lemma fetch_state:
  "snd (fetch_uradmon_data env s) =
     (if fetched env s = None then s\<lparr>stderr := stderr (snd (fetch_uradmon_data env s))\<rparr> else s)"
proof (cases "http_get env (fetch_request s)")
  case (RequestFailed e)
  then show ?thesis
    by (simp add: fetched_def fetch_uradmon_data_def fetch_failed_def)
next
  case (Response code body)
  show ?thesis
  proof (cases "400 \<le> code \<and> code < 600")
    case True
    with Response show ?thesis
      by (simp add: fetched_def fetch_uradmon_data_def fetch_failed_def raise_for_status_def)
  next
    case False
    with Response show ?thesis
      by (cases body)
        (simp_all add: fetched_def fetch_uradmon_data_def fetch_failed_def raise_for_status_def)
  qed
qed

lemma uradmon_block_failure:
  assumes "fetched env s = None"
  shows "uradmon_block env s
    = (None, set_flags (s\<lparr>stderr := stderr (snd (fetch_uradmon_data env s))\<rparr>))"
proof -
  define err where "err = stderr (snd (fetch_uradmon_data env s))"
  from assms fetch_state [of env s] have "snd (fetch_uradmon_data env s) = s\<lparr>stderr := err\<rparr>"
    by (simp add: err_def)
  with assms have "fetch_uradmon_data env s = (None, s\<lparr>stderr := err\<rparr>)"
    by (simp add: fetched_def prod_eq_iff)
  then have "uradmon_block env s = (None, set_flags (s\<lparr>stderr := err\<rparr>))"
    by (simp add: uradmon_block_def set_flags_def)
  then show ?thesis by (simp add: err_def)
qed

lemma uradmon_block_success:
  assumes "fetched env s = Some d"
  shows "uradmon_block env s =
     (case doc_items d of
        Inl e \<Rightarrow> (Some e, clear_flags s)
      | Inr items \<Rightarrow>
          (case scan_items (id_value (uradmon_id s)) items None of
             Inl e \<Rightarrow> (Some e, clear_flags s)
           | Inr m \<Rightarrow> reconcile m (clear_flags s)))"
proof -
  from assms fetch_state [of env s] have f: "fetch_uradmon_data env s = (Some d, s)"
    by (simp add: fetched_def prod_eq_iff)
  have u: "uradmon_id (clear_flags s) = uradmon_id s" by (simp add: clear_flags_def)
  show ?thesis
    unfolding uradmon_block_def f
    by (simp only: prod.case option.case Let_def clear_flags_def [symmetric] u)
qed

lemma clear_flags_fields:
  "cpm (clear_flags s) = cpm s" "rad (clear_flags s) = rad s"
  "shown (cpmvalue (clear_flags s)) = shown (cpmvalue s)"
  "shown (radvalue (clear_flags s)) = shown (radvalue s)"
  "mainlabel (clear_flags s) = mainlabel s"
  "\<not> has_error (cpmvalue (clear_flags s))" "\<not> has_error (radvalue (clear_flags s))"
  by (simp_all add: clear_flags_def remove_class_def has_error_def)

lemma has_error_classes:
  "style_classes l' = style_classes l \<Longrightarrow> has_error l' = has_error l"
  by (simp add: has_error_def)

lemma temperature_block_remote:
  assumes "temperature_block t s = Inr s1"
  shows "remote_slots s1 = remote_slots s"
proof (cases t)
  case None
  with assms have "s1 = s\<lparr>tempvalue := add_class ''value-error'' (tempvalue s)\<rparr>"
    by (simp add: temperature_block_def)
  then show ?thesis by (simp add: remote_slots_def)
next
  case (Some raw)
  show ?thesis
  proof (cases "int_true_div (raw - 2731) 10")
    case (Inl e)
    with assms Some show ?thesis by (simp add: temperature_block_def)
  next
    case (Inr x)
    let ?s1 = "s\<lparr>tempvalue := remove_class ''value-error'' (tempvalue s)\<rparr>"
    from assms Some Inr have "s1 = (if py_ne (PFloat x) (temperature s)
        then ?s1\<lparr>tempvalue := set_text (FormatValue (PFloat x)) (tempvalue ?s1),
                 temperature := PFloat x\<rparr>
        else ?s1)"
      by (simp add: temperature_block_def Let_def)
    then show ?thesis by (simp add: remote_slots_def)
  qed
qed

lemma humidity_block_remote: "remote_slots (humidity_block h s) = remote_slots s"
  by (simp add: humidity_block_def remote_slots_def Let_def split: option.splits)

lemma do_update_values_remote:
  assumes "\<forall>raw. read_sensor env s (Tflag s) = Some raw \<longrightarrow> sysctl_integer raw"
    and "Uflag s"
  shows "\<exists>s2. do_update_values env s = uradmon_block env s2 \<and> remote_slots s2 = remote_slots s"
proof -
  from temperature_block_ok [OF assms(1), of s] obtain s1
    where s1: "temperature_block (read_sensor env s (Tflag s)) s = Inr s1" by blast
  let ?s2 = "humidity_block (read_sensor env s (Hflag s)) s1"
  have r: "remote_slots ?s2 = remote_slots s"
    by (simp add: humidity_block_remote temperature_block_remote [OF s1])
  with assms(2) have "Uflag ?s2" by (simp add: remote_slots_def)
  with s1 have "do_update_values env s = uradmon_block env ?s2"
    by (simp add: do_update_values_def Let_def)
  with r show ?thesis by blast
qed

lemma fetched_remote: "remote_slots s2 = remote_slots s \<Longrightarrow> fetched env s2 = fetched env s"
  by (simp add: fetched_answer fetch_request_def remote_slots_def)

lemma remote_slots_fields:
  assumes "remote_slots s2 = remote_slots s"
  shows "Uflag s2 = Uflag s" "uradmon_id s2 = uradmon_id s" "cpm s2 = cpm s" "rad s2 = rad s"
    "cpmvalue s2 = cpmvalue s" "radvalue s2 = radvalue s" "mainlabel s2 = mainlabel s"
  using assms by (simp_all add: remote_slots_def)

lemma set_flags_fields:
  "cpm (set_flags s) = cpm s" "rad (set_flags s) = rad s"
  "shown (cpmvalue (set_flags s)) = shown (cpmvalue s)"
  "shown (radvalue (set_flags s)) = shown (radvalue s)"
  "mainlabel (set_flags s) = mainlabel s"
  "has_error (cpmvalue (set_flags s))" "has_error (radvalue (set_flags s))"
  by (simp_all add: set_flags_def add_class_def has_error_def)

lemma poll_fetch_failure:
  assumes rng: "\<forall>raw. read_sensor env s (Tflag s) = Some raw \<longrightarrow> sysctl_integer raw"
    and on: "Uflag s" and failed: "fetched env s = None"
  shows "poll_error env s = None"
    and "cpm (after_poll env s) = cpm s" and "rad (after_poll env s) = rad s"
    and "shown (cpmvalue (after_poll env s)) = shown (cpmvalue s)"
    and "shown (radvalue (after_poll env s)) = shown (radvalue s)"
    and "mainlabel (after_poll env s) = mainlabel s"
    and "has_error (cpmvalue (after_poll env s))" and "has_error (radvalue (after_poll env s))"
proof -
  from do_update_values_remote [OF rng on] obtain s2
    where run: "do_update_values env s = uradmon_block env s2"
      and same: "remote_slots s2 = remote_slots s" by blast
  define s3 where "s3 = s2\<lparr>stderr := stderr (snd (fetch_uradmon_data env s2))\<rparr>"
  from failed fetched_remote [OF same] have "fetched env s2 = None" by simp
  from uradmon_block_failure [OF this] run
  have res: "do_update_values env s = (None, set_flags s3)" by (simp add: s3_def)
  have s3: "cpm s3 = cpm s" "rad s3 = rad s" "cpmvalue s3 = cpmvalue s"
    "radvalue s3 = radvalue s" "mainlabel s3 = mainlabel s"
    using remote_slots_fields [OF same] by (simp_all add: s3_def)
  from res show "poll_error env s = None" by (simp add: poll_error_def)
  from res s3 show "cpm (after_poll env s) = cpm s" and "rad (after_poll env s) = rad s"
    and "shown (cpmvalue (after_poll env s)) = shown (cpmvalue s)"
    and "shown (radvalue (after_poll env s)) = shown (radvalue s)"
    and "mainlabel (after_poll env s) = mainlabel s"
    and "has_error (cpmvalue (after_poll env s))" and "has_error (radvalue (after_poll env s))"
    by (simp_all add: after_poll_def set_flags_fields)
qed

text \<open>After a successful fetch the callback ends in one of three ways.\<close>

lemma poll_fetch_success:
  assumes rng: "\<forall>raw. read_sensor env s (Tflag s) = Some raw \<longrightarrow> sysctl_integer raw"
    and on: "Uflag s" and got: "fetched env s = Some d"
  shows "\<exists>s2. remote_slots s2 = remote_slots s \<and>
    ((\<exists>e. doc_items d = Inl e \<and> do_update_values env s = (Some e, clear_flags s2)) \<or>
     (\<exists>items e. doc_items d = Inr items \<and>
        scan_items (id_value (uradmon_id s)) items None = Inl e \<and>
        do_update_values env s = (Some e, clear_flags s2)) \<or>
     (\<exists>items m. doc_items d = Inr items \<and>
        scan_items (id_value (uradmon_id s)) items None = Inr m \<and>
        do_update_values env s = reconcile m (clear_flags s2)))"
proof -
  from do_update_values_remote [OF rng on] obtain s2
    where run: "do_update_values env s = uradmon_block env s2"
      and same: "remote_slots s2 = remote_slots s" by blast
  from got fetched_remote [OF same] have "fetched env s2 = Some d" by simp
  note blk = uradmon_block_success [OF this, unfolded remote_slots_fields(2) [OF same]]
  have "(\<exists>e. doc_items d = Inl e \<and> do_update_values env s = (Some e, clear_flags s2)) \<or>
     (\<exists>items e. doc_items d = Inr items \<and>
        scan_items (id_value (uradmon_id s)) items None = Inl e \<and>
        do_update_values env s = (Some e, clear_flags s2)) \<or>
     (\<exists>items m. doc_items d = Inr items \<and>
        scan_items (id_value (uradmon_id s)) items None = Inr m \<and>
        do_update_values env s = reconcile m (clear_flags s2))"
  proof (cases "doc_items d")
    case (Inl e)
    with blk run show ?thesis by simp
  next
    case (Inr items)
    show ?thesis
    proof (cases "scan_items (id_value (uradmon_id s)) items None")
      case (Inl e)
      with \<open>doc_items d = Inr items\<close> blk run show ?thesis by simp
    next
      case (Inr m)
      with \<open>doc_items d = Inr items\<close> blk run show ?thesis by simp
    qed
  qed
  with same show ?thesis by blast
qed

lemma clear_flags_remote:
  assumes "remote_slots s2 = remote_slots s"
  shows "cpm (clear_flags s2) = cpm s" "rad (clear_flags s2) = rad s"
    "shown (cpmvalue (clear_flags s2)) = shown (cpmvalue s)"
    "shown (radvalue (clear_flags s2)) = shown (radvalue s)"
  using remote_slots_fields [OF assms] by (simp_all add: clear_flags_fields)

lemma poll_success_flags:
  assumes rng: "\<forall>raw. read_sensor env s (Tflag s) = Some raw \<longrightarrow> sysctl_integer raw"
    and on: "Uflag s" and got: "fetched env s = Some d"
  shows "\<not> has_error (cpmvalue (after_poll env s))" "\<not> has_error (radvalue (after_poll env s))"
proof -
  from poll_fetch_success [OF rng on got] obtain s2 where
    alt: "(\<exists>e. do_update_values env s = (Some e, clear_flags s2)) \<or>
      (\<exists>m. do_update_values env s = reconcile m (clear_flags s2))" by blast
  have "\<not> has_error (cpmvalue (after_poll env s)) \<and> \<not> has_error (radvalue (after_poll env s))"
  proof -
    from alt consider e where "do_update_values env s = (Some e, clear_flags s2)"
      | m where "do_update_values env s = reconcile m (clear_flags s2)" by blast
    then show ?thesis
    proof cases
      case 1
      then show ?thesis by (simp add: after_poll_def clear_flags_fields)
    next
      case 2
      obtain e s' where r: "reconcile m (clear_flags s2) = (e, s')"
        by (cases "reconcile m (clear_flags s2)")
      from reconcile_classes [OF r] clear_flags_fields(6,7) [of s2]
      have "\<not> has_error (cpmvalue s')" "\<not> has_error (radvalue s')"
        by (simp_all add: has_error_def)
      with 2 r show ?thesis by (simp add: after_poll_def)
    qed
  qed
  then show "\<not> has_error (cpmvalue (after_poll env s))"
    and "\<not> has_error (radvalue (after_poll env s))" by simp_all
qed

lemma scan_no_valid_record:
  assumes "scan_items target items None = Inr m" and "no_valid_record target items"
  shows "\<not> writes_cpm m s"
proof (cases "last_match target items")
  case None
  with scan_items_last [OF assms(1)] show ?thesis by (simp add: writes_cpm_def)
next
  case (Some mm)
  with scan_items_last [OF assms(1)] obtain v where v: "read_fields mm = Inr v" "m = Some v"
    by auto
  from assms(2) Some read_fields_field(1,2) [OF v(1)]
  have "umstatus v \<noteq> PStr ''1'' \<or> umcpm v = PNone" by (auto simp: no_valid_record_def)
  with v(2) show ?thesis by (auto simp: writes_cpm_def)
qed

lemma poll_valid_record:
  assumes rng: "\<forall>raw. read_sensor env s (Tflag s) = Some raw \<longrightarrow> sysctl_integer raw"
    and on: "Uflag s"
    and got: "fetched env s = Some (JsonArray items)"
    and shape: "list_all telemetry_record items"
    and lm: "last_match (id_value (uradmon_id s)) items = Some m"
  shows "\<exists>v s2. read_fields m = Inr v \<and> remote_slots s2 = remote_slots s \<and>
    do_update_values env s = reconcile (Some v) (clear_flags s2)"
proof -
  from scan_items_ok [OF shape] obtain r
    where r: "scan_items (id_value (uradmon_id s)) items None = Inr r" by blast
  from scan_items_last [OF r] lm obtain v where v: "read_fields m = Inr v" "r = Some v"
    by auto
  from poll_fetch_success [OF rng on got] r v(2) obtain s2
    where "remote_slots s2 = remote_slots s"
      "do_update_values env s = reconcile (Some v) (clear_flags s2)"
    by (auto simp: doc_items_def)
  with v(1) show ?thesis by blast
qed

lemma valid_record_effects:
  assumes rng: "\<forall>raw. read_sensor env s (Tflag s) = Some raw \<longrightarrow> sysctl_integer raw"
    and on: "Uflag s"
    and got: "fetched env s = Some (JsonArray items)"
    and shape: "list_all telemetry_record items"
    and lm: "last_match (id_value (uradmon_id s)) items = Some m"
    and st: "field m ''status'' = Some (PStr ''1'')"
    and c: "field m ''avg_cpm'' = Some c" "c \<noteq> PNone"
    and f: "field m ''factor'' = Some f"
  shows "\<not> py_ne (cpm s) c \<Longrightarrow>
           cpm (after_poll env s) = cpm s \<and> rad (after_poll env s) = rad s \<and>
           shown (cpmvalue (after_poll env s)) = shown (cpmvalue s) \<and>
           shown (radvalue (after_poll env s)) = shown (radvalue s)"
    and "py_ne (cpm s) c \<Longrightarrow> cpm (after_poll env s) = c"
    and "py_ne (cpm s) c \<Longrightarrow> py_float c = Inr a \<Longrightarrow> py_float f = Inr b \<Longrightarrow>
           rad (after_poll env s) = Some (float_mul a b)"
    and "py_ne (cpm s) c \<Longrightarrow> py_float c = Inr a \<Longrightarrow> py_float f = Inr b \<Longrightarrow>
           py_int c = Inr n \<Longrightarrow>
           shown (cpmvalue (after_poll env s)) = FormatCpm n # shown (cpmvalue s) \<and>
           shown (radvalue (after_poll env s)) = FormatRad (float_mul a b) # shown (radvalue s)"
proof -
  from poll_valid_record [OF rng on got shape lm] obtain v s2
    where v: "read_fields m = Inr v" and same: "remote_slots s2 = remote_slots s"
      and run: "do_update_values env s = reconcile (Some v) (clear_flags s2)" by blast
  from read_fields_field [OF v] st c f
  have fields: "umstatus v = PStr ''1''" "umcpm v = c" "umfactor v = f" by simp_all
  obtain e s' where r: "reconcile (Some v) (clear_flags s2) = (e, s')"
    by (cases "reconcile (Some v) (clear_flags s2)")
  from run r have s': "after_poll env s = s'" by (simp add: after_poll_def)
  note old = clear_flags_remote [OF same]
  { assume "\<not> py_ne (cpm s) c"
    then have "\<not> writes_cpm (Some v) (clear_flags s2)"
      by (simp add: writes_cpm_def fields old)
    from reconcile_idle [OF r this]
    show "cpm (after_poll env s) = cpm s \<and> rad (after_poll env s) = rad s \<and>
           shown (cpmvalue (after_poll env s)) = shown (cpmvalue s) \<and>
           shown (radvalue (after_poll env s)) = shown (radvalue s)"
      by (simp add: s' old) }
  { assume ne: "py_ne (cpm s) c"
    with c(2) have "writes_cpm (Some v) (clear_flags s2)"
      by (simp add: writes_cpm_def fields old)
    from reconcile_write [OF r this] obtain e1 s1
      where st1: "store_cpm v (clear_flags s2) = (e1, s1)"
        and s1: "cpm s' = cpm s1" "rad s' = rad s1" "cpmvalue s' = cpmvalue s1"
          "radvalue s' = radvalue s1" by blast
    from store_cpm_effect(1) [OF st1] s1(1) show "cpm (after_poll env s) = c"
      by (simp add: s' fields)
    { assume ab: "py_float c = Inr a" "py_float f = Inr b"
      from store_cpm_effect(5) [OF st1, of a b] ab s1(2)
      show "rad (after_poll env s) = Some (float_mul a b)"
        by (simp add: s' fields)
      assume "py_int c = Inr n"
      with store_cpm_effect(6) [OF st1, of a b n] ab s1(3,4)
      show "shown (cpmvalue (after_poll env s)) = FormatCpm n # shown (cpmvalue s) \<and>
           shown (radvalue (after_poll env s)) = FormatRad (float_mul a b) # shown (radvalue s)"
        by (simp add: s' fields old) } }
qed

lemma scan_single:
  assumes "id_matches target m" and "read_fields m = Inr v"
  shows "scan_items target [m] None = Inr (Some v)"
proof -
  from assms(1) obtain i where "getitem m ''id'' = Inr i" "py_eq i target"
    by (auto simp: id_matches_def field_def split: sum.splits)
  with assms(2) show ?thesis by simp
qed

lemma scan_last_match:
  assumes "list_all telemetry_record items" and "last_match target items = Some m"
  shows "\<exists>v. read_fields m = Inr v \<and> scan_items target items None = Inr (Some v) \<and>
    scan_items target [m] None = Inr (Some v)"
proof -
  from scan_items_ok [OF assms(1)] obtain r where r: "scan_items target items None = Inr r"
    by blast
  from scan_items_last [OF r] assms(2) obtain v where v: "read_fields m = Inr v" "r = Some v"
    by auto
  from last_match_member [OF assms(2)] have "id_matches target m" by simp
  from scan_single [OF this v(1)] r v show ?thesis by simp
qed

lemma uradmon_block_last_match:
  assumes answer: "http_get env (fetch_request s) = Response code (Json (JsonArray items))"
    and shape: "list_all telemetry_record items"
    and lm: "last_match (id_value (uradmon_id s)) items = Some m"
  shows "uradmon_block env s
    = uradmon_block (env\<lparr>http_get := \<lambda>request. Response code (Json (JsonArray [m]))\<rparr>) s"
proof (cases "400 \<le> code \<and> code < 600")
  case True
  with answer show ?thesis
    by (simp add: uradmon_block_def fetch_uradmon_data_def raise_for_status_def)
next
  case False
  let ?env = "env\<lparr>http_get := \<lambda>request. Response code (Json (JsonArray [m]))\<rparr>"
  from False answer have a: "fetched env s = Some (JsonArray items)"
    by (simp add: fetched_answer)
  from False have b: "fetched ?env s = Some (JsonArray [m])"
    by (simp add: fetched_answer)
  from scan_last_match [OF shape lm] obtain v
    where "scan_items (id_value (uradmon_id s)) items None = Inr (Some v)"
      "scan_items (id_value (uradmon_id s)) [m] None = Inr (Some v)" by blast
  then show ?thesis
    by (simp add: uradmon_block_success [OF a] uradmon_block_success [OF b] doc_items_def)
qed

lemma after_poll_on:
  assumes rng: "\<forall>raw. read_sensor env s (Tflag s) = Some raw \<longrightarrow> sysctl_integer raw"
    and on: "Uflag s" and failed: "fetched env s = None"
  shows "Uflag (after_poll env s)"
proof -
  from do_update_values_remote [OF rng on] obtain s2
    where run: "do_update_values env s = uradmon_block env s2"
      and same: "remote_slots s2 = remote_slots s" by blast
  from failed fetched_remote [OF same] have "fetched env s2 = None" by simp
  from uradmon_block_failure [OF this] run remote_slots_fields(1) [OF same] on
  show ?thesis by (simp add: after_poll_def set_flags_def)
qed

lemma read_sensor_next: "read_sensor env2 (after_poll env s) leaf = read_sensor env2 s leaf"
  by (simp add: read_sensor_def sysctl_name_def after_poll_names)
section \<open>Facts about the concrete runs\<close>

lemma started_fields:
  "sensnum (started d) = 0" "Tflag (started d) = ''temperature''" "Hflag (started d) = ''humidity''"
  "Uflag (started d)" "uradmon_id (started d) = Some d"
  "temperature (started d) = PNone" "humidity (started d) = PNone" "cpm (started d) = PNone"
  "rad (started d) = None"
  "tempvalue (started d) = new_label ''tempvalue''" "humvalue (started d) = new_label ''humvalue''"
  "cpmvalue (started d) = new_label ''cpmvalue''" "radvalue (started d) = new_label ''radvalue''"
  "mainlabel (started d) = new_label ''main-label-normal''"
  "uradmon_api (started d) = ''https://data.uradmonitor.com/api/v1/devices''"
  by (simp_all add: started_def init_widgets_def class_defaults_def)

lemma world_readings:
  "read_sensor (world t h a c) (started d) ''temperature'' = t"
  "read_sensor (world t h a c) (started d) ''humidity'' = h"
  by (simp_all add: read_sensor_def sysctl_name_def world_def started_fields str_int_def)

lemma no_overflow_small: "\<bar>x\<bar> \<le> 2 ^ 64 \<Longrightarrow> \<not> binary64_overflows x"
  by (simp add: binary64_overflows_def)

lemma nearest_0: "nearest_binary64 0 = 0"
  by (simp add: nearest_binary64_def)

lemma nearest_100: "nearest_binary64 100 = 100"
  by code_simp

lemma nearest_25_4: "nearest_binary64 (127 / 5) = 3574732204225331 / 140737488355328"
  by code_simp

lemma celsius_2731: "celsius 2731 = FFinite 0"
  by (simp add: celsius_def float_of_rat_def no_overflow_small nearest_0)

lemma celsius_3731: "celsius 3731 = FFinite 100"
  by (simp add: celsius_def float_of_rat_def no_overflow_small nearest_100)

lemma celsius_2985: "celsius 2985 = FFinite (3574732204225331 / 140737488355328)"
  by (simp add: celsius_def float_of_rat_def no_overflow_small nearest_25_4)

lemma decimal_25_4: "decimal_of ''25.4'' = Some (127 / 5)"
  by code_simp

lemma float_of_string_25_4:
  "float_of_string ''25.4'' = Inr (FFinite (3574732204225331 / 140737488355328))"
proof -
  have "drop_underscores (py_strip ''25.4'') = Some ''25.4''" by code_simp
  moreover have "split_sign ''25.4'' = (False, ''25.4'')" by code_simp
  moreover have "\<not> same_letters ''25.4'' ''inf'' ''INF''"
    "\<not> same_letters ''25.4'' ''infinity'' ''INFINITY''" "\<not> same_letters ''25.4'' ''nan'' ''NAN''"
    by code_simp+
  ultimately show ?thesis
    by (simp add: float_of_string_def decimal_25_4 float_of_rat_def no_overflow_small
        nearest_25_4)
qed

lemma telemetry_fields:
  "field (telemetry i st c) ''id'' = Some (PStr i)"
  "field (telemetry i st c) ''status'' = Some (PStr st)"
  "field (telemetry i st c) ''avg_cpm'' = Some c"
  "field (telemetry i st c) ''factor'' = Some (PFloat hundredth)"
  "field (telemetry i st c) ''avg_voltage'' = Some (PInt 380)"
  "field (telemetry i st c) ''avg_duty'' = Some (PInt 500)"
  by (simp_all add: telemetry_def field_def getitem_def)

lemma telemetry_is_record: "telemetry_record (telemetry i st c)"
  by (simp add: telemetry_record_def telemetry_fields)

lemma telemetry_matches: "id_matches (PStr t) (telemetry i st c) \<longleftrightarrow> i = t"
  by (simp add: id_matches_def telemetry_fields)

lemma two_records_shape: "list_all telemetry_record two_records"
  by (simp add: two_records_def telemetry_is_record)

lemma two_records_Z: "last_match (PStr ''Z'') two_records = None"
  by (simp add: two_records_def last_match_def telemetry_matches)

lemma two_records_B: "last_match (PStr ''B'') two_records = Some (telemetry ''B'' ''1'' (PInt 12))"
  by (simp add: two_records_def last_match_def telemetry_matches)

lemma world_fetched:
  "fetched (world t h (Response 200 (Json d)) c) (started x) = Some d"
  "fetched (world t h (Response 300 (Json d)) c) (started x) = Some d"
  "fetched (world t h (RequestFailed e) c) (started x) = None"
  by (simp_all add: fetched_answer world_def)

lemma world_in_range:
  "\<forall>raw. read_sensor (world (Some 2985) h a c) (started x) (Tflag (started x)) = Some raw
     \<longrightarrow> sysctl_integer raw"
  by (simp add: started_fields world_readings sysctl_integer_def)

lemma nearest_12: "nearest_binary64 12 = 12"
  by code_simp

lemma py_float_12: "py_float (PInt 12) = Inr (FFinite 12)"
  by (simp add: py_float_def no_overflow_small nearest_12)

lemma py_int_12: "py_int (PInt 12) = Inr 12"
  by (simp add: py_int_def)

lemma nearest_product:
  "nearest_binary64 (17293822569102705 / 144115188075855872)
     = 1080863910568919 / 9007199254740992"
  by code_simp

lemma twelve_hundredths:
  "float_mul (FFinite 12) hundredth = FFinite (1080863910568919 / 9007199254740992)"
  by (simp add: hundredth_def float_of_rat_def no_overflow_small nearest_product)

lemma decimal_0_12: "decimal_of ''0.12'' = Some (3 / 25)"
  by code_simp

lemma nearest_0_12: "nearest_binary64 (3 / 25) = 1080863910568919 / 9007199254740992"
  by code_simp

lemma float_of_string_0_12:
  "float_of_string ''0.12'' = Inr (FFinite (1080863910568919 / 9007199254740992))"
proof -
  have "drop_underscores (py_strip ''0.12'') = Some ''0.12''" by code_simp
  moreover have "split_sign ''0.12'' = (False, ''0.12'')" by code_simp
  moreover have "\<not> same_letters ''0.12'' ''inf'' ''INF''"
    "\<not> same_letters ''0.12'' ''infinity'' ''INFINITY''" "\<not> same_letters ''0.12'' ''nan'' ''NAN''"
    by code_simp+
  ultimately show ?thesis
    by (simp add: float_of_string_def decimal_0_12 float_of_rat_def no_overflow_small
        nearest_0_12)
qed

lemma decimal_0_01: "decimal_of ''0.01'' = Some (1 / 100)"
  by code_simp

lemma nearest_0_01: "nearest_binary64 (1 / 100) = 5764607523034235 / 576460752303423488"
  by code_simp

lemma float_of_string_0_01: "float_of_string ''0.01'' = Inr hundredth"
proof -
  have "drop_underscores (py_strip ''0.01'') = Some ''0.01''" by code_simp
  moreover have "split_sign ''0.01'' = (False, ''0.01'')" by code_simp
  moreover have "\<not> same_letters ''0.01'' ''inf'' ''INF''"
    "\<not> same_letters ''0.01'' ''infinity'' ''INFINITY''" "\<not> same_letters ''0.01'' ''nan'' ''NAN''"
    by code_simp+
  ultimately show ?thesis
    by (simp add: float_of_string_def decimal_0_01 float_of_rat_def no_overflow_small
        nearest_0_01 hundredth_def)
qed
section \<open>Change detection on the local slots\<close>

text \<open>
  Claim C2. One poll, from any state, with a temperature reading inside the sysctl
  range when there is one. For the temperature slot and for the humidity slot alike:
  the stored value changes if and only if the value just read (after conversion) is
  unequal, by Python's \<^verbatim>\<open>!=\<close>, to the stored one; when it is unequal the new value
  is stored and the label is given its text; when it is equal the label is given no
  text; in both cases the error flag of the slot is cleared. A second poll over the same
  sysctl values changes neither stored value, gives neither label a text and leaves
  both flags as the first poll set them.
\<close>

theorem change_detection:
  assumes rng: "\<forall>raw. read_sensor env s (Tflag s) = Some raw \<longrightarrow> sysctl_integer raw"
    and same: "sysctl_value env2 = sysctl_value env"
  shows
    "(\<forall>raw. read_sensor env s (Tflag s) = Some raw \<longrightarrow>
        (temperature (after_poll env s) \<noteq> temperature s
           \<longleftrightarrow> py_ne (PFloat (celsius raw)) (temperature s)) \<and>
        (py_ne (PFloat (celsius raw)) (temperature s) \<longrightarrow>
           temperature (after_poll env s) = PFloat (celsius raw) \<and>
           shown (tempvalue (after_poll env s))
             = FormatValue (PFloat (celsius raw)) # shown (tempvalue s)) \<and>
        (\<not> py_ne (PFloat (celsius raw)) (temperature s) \<longrightarrow>
           shown (tempvalue (after_poll env s)) = shown (tempvalue s)) \<and>
        \<not> has_error (tempvalue (after_poll env s))) \<and>
     (\<forall>raw. read_sensor env s (Hflag s) = Some raw \<longrightarrow>
        (humidity (after_poll env s) \<noteq> humidity s \<longleftrightarrow> py_ne (PInt raw) (humidity s)) \<and>
        (py_ne (PInt raw) (humidity s) \<longrightarrow>
           humidity (after_poll env s) = PInt raw \<and>
           shown (humvalue (after_poll env s)) = FormatValue (PInt raw) # shown (humvalue s)) \<and>
        (\<not> py_ne (PInt raw) (humidity s) \<longrightarrow>
           shown (humvalue (after_poll env s)) = shown (humvalue s)) \<and>
        \<not> has_error (humvalue (after_poll env s))) \<and>
     temperature (after_poll env2 (after_poll env s)) = temperature (after_poll env s) \<and>
     shown (tempvalue (after_poll env2 (after_poll env s))) = shown (tempvalue (after_poll env s)) \<and>
     has_error (tempvalue (after_poll env2 (after_poll env s)))
       = has_error (tempvalue (after_poll env s)) \<and>
     humidity (after_poll env2 (after_poll env s)) = humidity (after_poll env s) \<and>
     shown (humvalue (after_poll env2 (after_poll env s))) = shown (humvalue (after_poll env s)) \<and>
     has_error (humvalue (after_poll env2 (after_poll env s)))
       = has_error (humvalue (after_poll env s))"
proof (intro conjI allI impI)
  fix raw assume "read_sensor env s (Tflag s) = Some raw"
  note t = temperature_change [OF rng this]
  from t show "(temperature (after_poll env s) \<noteq> temperature s)
      = py_ne (PFloat (celsius raw)) (temperature s)" by simp
  from t show "\<not> has_error (tempvalue (after_poll env s))" by simp
  { assume "py_ne (PFloat (celsius raw)) (temperature s)"
    with t show "temperature (after_poll env s) = PFloat (celsius raw)"
      and "shown (tempvalue (after_poll env s))
        = FormatValue (PFloat (celsius raw)) # shown (tempvalue s)" by simp_all }
  { assume "\<not> py_ne (PFloat (celsius raw)) (temperature s)"
    with t show "shown (tempvalue (after_poll env s)) = shown (tempvalue s)" by simp }
next
  fix raw assume "read_sensor env s (Hflag s) = Some raw"
  note h = humidity_change [OF rng this]
  from h show "(humidity (after_poll env s) \<noteq> humidity s) = py_ne (PInt raw) (humidity s)"
    by simp
  from h show "\<not> has_error (humvalue (after_poll env s))" by simp
  { assume "py_ne (PInt raw) (humidity s)"
    with h show "humidity (after_poll env s) = PInt raw"
      and "shown (humvalue (after_poll env s)) = FormatValue (PInt raw) # shown (humvalue s)"
      by simp_all }
  { assume "\<not> py_ne (PInt raw) (humidity s)"
    with h show "shown (humvalue (after_poll env s)) = shown (humvalue s)" by simp }
qed (rule temperature_repeat [OF rng same] humidity_repeat [OF rng same])+

theorem change_detection_witness:
  "temperature (after_poll (world (Some 2985) (Some 45) (RequestFailed Timeout) None) (started ''B''))
     = PFloat (celsius 2985) \<and>
   humidity (after_poll (world (Some 2985) (Some 45) (RequestFailed Timeout) None) (started ''B''))
     = PInt 45 \<and>
   shown (tempvalue (after_poll (world (Some 2985) (Some 45) (RequestFailed Timeout) None)
     (after_poll (world (Some 2985) (Some 45) (RequestFailed Timeout) None) (started ''B''))))
     = [FormatValue (PFloat (celsius 2985))] \<and>
   \<not> has_error (humvalue (after_poll (world (Some 2985) (Some 45) (RequestFailed Timeout) None)
     (started ''B'')))"
proof -
  let ?w = "world (Some 2985) (Some 45) (RequestFailed Timeout) None"
  let ?s = "started ''B''"
  have rng: "\<forall>raw. read_sensor ?w ?s (Tflag ?s) = Some raw \<longrightarrow> sysctl_integer raw"
    by (simp add: started_fields world_readings sysctl_integer_def)
  from change_detection [OF rng refl]
  show ?thesis
    by (simp add: started_fields world_readings py_ne_def new_label_def)
qed

section \<open>The conversion of the two readings\<close>

text \<open>
  Claim C3. From a state whose two local attributes hold what the program ever puts
  there, and with a temperature reading inside the sysctl range: after the poll the
  stored temperature is the float of the exact quotient \<open>(raw - 2731) / 10\<close>, that is
  the quotient computed by true division, with no step that truncates or rounds to an
  integer, and the stored humidity is the raw integer itself. Raw 2731 gives 0.0, raw
  3731 gives 100.0, and raw 2985 gives the float that Python writes \<^verbatim>\<open>25.4\<close>.
\<close>

theorem celsius_conversion:
  assumes types: "slot_types s"
    and rng: "\<forall>raw. read_sensor env s (Tflag s) = Some raw \<longrightarrow> sysctl_integer raw"
  shows
    "(\<forall>raw. read_sensor env s (Tflag s) = Some raw \<longrightarrow>
        temperature (after_poll env s) = PFloat (float_of_rat (of_int (raw - 2731) / 10))) \<and>
     (\<forall>raw. read_sensor env s (Hflag s) = Some raw \<longrightarrow>
        humidity (after_poll env s) = PInt raw) \<and>
     float_of_rat (of_int (2731 - 2731) / 10) = FFinite 0 \<and>
     float_of_rat (of_int (3731 - 2731) / 10) = FFinite 100 \<and>
     float_of_string ''25.4'' = Inr (float_of_rat (of_int (2985 - 2731) / 10))"
proof (intro conjI allI impI)
  fix raw assume r: "read_sensor env s (Tflag s) = Some raw"
  with rng have ok: "sysctl_integer raw" by simp
  from types have old: "temperature s = PNone \<or> (\<exists>x. temperature s = PFloat (FFinite x))"
    by (simp add: slot_types_cases)
  have "temperature (after_poll env s) = PFloat (celsius raw)"
  proof (cases "py_ne (PFloat (celsius raw)) (temperature s)")
    case True
    then show ?thesis by (simp add: temperature_slot [OF r ok])
  next
    case False
    from py_eq_celsius_stored [OF False ok old] False show ?thesis
      by (simp add: temperature_slot [OF r ok])
  qed
  then show "temperature (after_poll env s) = PFloat (float_of_rat (of_int (raw - 2731) / 10))"
    by (simp add: celsius_def)
next
  fix raw assume r: "read_sensor env s (Hflag s) = Some raw"
  from types have old: "humidity s = PNone \<or> (\<exists>n. humidity s = PInt n)"
    by (simp add: slot_types_cases)
  show "humidity (after_poll env s) = PInt raw"
  proof (cases "py_ne (PInt raw) (humidity s)")
    case True
    then show ?thesis by (simp add: humidity_slot [OF rng r])
  next
    case False
    from py_eq_int_stored [OF False old] False show ?thesis
      by (simp add: humidity_slot [OF rng r])
  qed
next
  show "float_of_rat (of_int (2731 - 2731) / 10) = FFinite 0"
    using celsius_2731 by (simp add: celsius_def)
  show "float_of_rat (of_int (3731 - 2731) / 10) = FFinite 100"
    using celsius_3731 by (simp add: celsius_def)
  show "float_of_string ''25.4'' = Inr (float_of_rat (of_int (2985 - 2731) / 10))"
    using celsius_2985 float_of_string_25_4 by (simp add: celsius_def)
qed

theorem celsius_conversion_witness:
  "temperature (after_poll (world (Some 2985) (Some 45) (RequestFailed Timeout) None) (started ''B''))
     = PFloat (FFinite (3574732204225331 / 140737488355328)) \<and>
   humidity (after_poll (world (Some 2985) (Some 45) (RequestFailed Timeout) None) (started ''B''))
     = PInt 45"
proof -
  let ?w = "world (Some 2985) (Some 45) (RequestFailed Timeout) None"
  let ?s = "started ''B''"
  have types: "slot_types ?s"
    by (simp add: slot_types_def started_fields)
  have rng: "\<forall>raw. read_sensor ?w ?s (Tflag ?s) = Some raw \<longrightarrow> sysctl_integer raw"
    by (simp add: started_fields world_readings sysctl_integer_def)
  from celsius_conversion [OF types rng] celsius_2985
  show ?thesis
    by (simp add: started_fields world_readings celsius_def)
qed

section \<open>A reading that is absent\<close>

text \<open>
  Claim C5. When the read of one of the two leaves yields \<^verbatim>\<open>None\<close>, the error flag of
  that slot is set, its stored value is the one of the cycle before and its label is
  given no text. The other slot, when its reading is present, is handled as in any other
  poll: its flag is cleared and its stored value is equal to the reading.
\<close>

theorem absent_reading:
  assumes rng: "\<forall>raw. read_sensor env s (Tflag s) = Some raw \<longrightarrow> sysctl_integer raw"
  shows
    "(read_sensor env s (Tflag s) = None \<longrightarrow>
        has_error (tempvalue (after_poll env s)) \<and>
        temperature (after_poll env s) = temperature s \<and>
        shown (tempvalue (after_poll env s)) = shown (tempvalue s) \<and>
        (\<forall>raw. read_sensor env s (Hflag s) = Some raw \<longrightarrow>
           \<not> has_error (humvalue (after_poll env s)) \<and>
           \<not> py_ne (PInt raw) (humidity (after_poll env s)))) \<and>
     (read_sensor env s (Hflag s) = None \<longrightarrow>
        has_error (humvalue (after_poll env s)) \<and>
        humidity (after_poll env s) = humidity s \<and>
        shown (humvalue (after_poll env s)) = shown (humvalue s) \<and>
        (\<forall>raw. read_sensor env s (Tflag s) = Some raw \<longrightarrow>
           \<not> has_error (tempvalue (after_poll env s)) \<and>
           \<not> py_ne (PFloat (celsius raw)) (temperature (after_poll env s))))"
proof (intro conjI impI allI)
  assume t: "read_sensor env s (Tflag s) = None"
  show "has_error (tempvalue (after_poll env s))"
    by (simp add: has_error_def temperature_slot_absent [OF t])
  show "temperature (after_poll env s) = temperature s"
    by (rule temperature_slot_absent [OF t])
  show "shown (tempvalue (after_poll env s)) = shown (tempvalue s)"
    by (rule temperature_slot_absent [OF t])
  fix raw assume h: "read_sensor env s (Hflag s) = Some raw"
  show "\<not> has_error (humvalue (after_poll env s))"
    by (simp add: has_error_def humidity_slot [OF rng h])
  show "\<not> py_ne (PInt raw) (humidity (after_poll env s))"
    by (rule humidity_stored_equal [OF rng h])
next
  assume h: "read_sensor env s (Hflag s) = None"
  show "has_error (humvalue (after_poll env s))"
    by (simp add: has_error_def humidity_slot_absent [OF rng h])
  show "humidity (after_poll env s) = humidity s"
    by (rule humidity_slot_absent [OF rng h])
  show "shown (humvalue (after_poll env s)) = shown (humvalue s)"
    by (rule humidity_slot_absent [OF rng h])
  fix raw assume t: "read_sensor env s (Tflag s) = Some raw"
  with rng have ok: "sysctl_integer raw" by simp
  show "\<not> has_error (tempvalue (after_poll env s))"
    by (simp add: has_error_def temperature_slot [OF t ok])
  show "\<not> py_ne (PFloat (celsius raw)) (temperature (after_poll env s))"
    by (rule temperature_stored_equal [OF t ok])
qed

theorem absent_reading_witness:
  "has_error (tempvalue (after_poll (world None (Some 45) (RequestFailed Timeout) None) (started ''B'')))
   \<and> temperature (after_poll (world None (Some 45) (RequestFailed Timeout) None) (started ''B''))
       = PNone
   \<and> \<not> has_error (humvalue (after_poll (world None (Some 45) (RequestFailed Timeout) None)
         (started ''B'')))
   \<and> \<not> py_ne (PInt 45) (humidity (after_poll (world None (Some 45) (RequestFailed Timeout) None)
         (started ''B'')))"
proof -
  let ?w = "world None (Some 45) (RequestFailed Timeout) None"
  let ?s = "started ''B''"
  have rng: "\<forall>raw. read_sensor ?w ?s (Tflag ?s) = Some raw \<longrightarrow> sysctl_integer raw"
    by (simp add: started_fields world_readings)
  from absent_reading [OF rng]
  show ?thesis
    by (simp add: started_fields world_readings)
qed

theorem invalid_record_keeps_values:
  assumes rng: "\<forall>raw. read_sensor env s (Tflag s) = Some raw \<longrightarrow> sysctl_integer raw"
    and on: "Uflag s"
    and got: "fetched env s = Some (JsonArray items)"
    and inv: "no_valid_record (id_value (uradmon_id s)) items"
  shows "cpm (after_poll env s) = cpm s \<and> rad (after_poll env s) = rad s \<and>
    shown (cpmvalue (after_poll env s)) = shown (cpmvalue s) \<and>
    shown (radvalue (after_poll env s)) = shown (radvalue s) \<and>
    \<not> has_error (cpmvalue (after_poll env s)) \<and> \<not> has_error (radvalue (after_poll env s))"
proof -
  from poll_fetch_success [OF rng on got] obtain s2 where same: "remote_slots s2 = remote_slots s"
    and alt: "(\<exists>e. do_update_values env s = (Some e, clear_flags s2)) \<or>
      (\<exists>m. scan_items (id_value (uradmon_id s)) items None = Inr m \<and>
        do_update_values env s = reconcile m (clear_flags s2))"
    by (auto simp: doc_items_def)
  have kept: "cpm (after_poll env s) = cpm s \<and> rad (after_poll env s) = rad s \<and>
    shown (cpmvalue (after_poll env s)) = shown (cpmvalue s) \<and>
    shown (radvalue (after_poll env s)) = shown (radvalue s)"
  proof -
    from alt consider e where "do_update_values env s = (Some e, clear_flags s2)"
      | m where "scan_items (id_value (uradmon_id s)) items None = Inr m"
        "do_update_values env s = reconcile m (clear_flags s2)" by blast
    then show ?thesis
    proof cases
      case 1
      then show ?thesis by (simp add: after_poll_def clear_flags_remote [OF same])
    next
      case 2
      obtain e s' where r: "reconcile m (clear_flags s2) = (e, s')"
        by (cases "reconcile m (clear_flags s2)")
      from reconcile_idle [OF r scan_no_valid_record [OF 2(1) inv]] 2(2) r
      show ?thesis by (simp add: after_poll_def clear_flags_remote [OF same])
    qed
  qed
  with poll_success_flags [OF rng on got] show ?thesis by simp
qed

theorem invalid_record_keeps_values_witness:
  "cpm (after_poll (world (Some 2985) (Some 45) (Response 200 (Json (JsonArray two_records))) None)
     (started ''Z'')) = PNone \<and>
   rad (after_poll (world (Some 2985) (Some 45) (Response 200 (Json (JsonArray two_records))) None)
     (started ''Z'')) = None \<and>
   \<not> has_error (cpmvalue (after_poll
     (world (Some 2985) (Some 45) (Response 200 (Json (JsonArray two_records))) None)
     (started ''Z'')))"
proof -
  have inv: "no_valid_record (id_value (uradmon_id (started ''Z''))) two_records"
    by (simp add: no_valid_record_def started_fields id_value_def two_records_Z)
  from invalid_record_keeps_values [OF world_in_range started_fields(4) world_fetched(1) inv]
  show ?thesis by (simp add: started_fields)
qed

theorem no_match_sets_no_flag_counterexample:
  "fetched (world (Some 2985) (Some 45) (Response 200 (Json (JsonArray two_records))) None)
     (started ''Z'') = Some (JsonArray two_records) \<and>
   last_match (id_value (uradmon_id (started ''Z''))) two_records = None \<and>
   \<not> has_error (cpmvalue (after_poll
     (world (Some 2985) (Some 45) (Response 200 (Json (JsonArray two_records))) None)
     (started ''Z''))) \<and>
   \<not> has_error (radvalue (after_poll
     (world (Some 2985) (Some 45) (Response 200 (Json (JsonArray two_records))) None)
     (started ''Z'')))"
  using poll_success_flags [OF world_in_range started_fields(4) world_fetched(1)]
  by (simp add: world_fetched started_fields id_value_def two_records_Z)

theorem fetch_failure:
  assumes rng: "\<forall>raw. read_sensor env s (Tflag s) = Some raw \<longrightarrow> sysctl_integer raw"
    and on: "Uflag s"
    and rng2: "\<forall>raw. read_sensor env2 s (Tflag s) = Some raw \<longrightarrow> sysctl_integer raw"
  shows
    "(\<forall>e. http_get env (fetch_request s) = RequestFailed e \<longrightarrow> fetched env s = None) \<and>
     (\<forall>code body. http_get env (fetch_request s) = Response code body \<and> 400 \<le> code \<and> code < 600
        \<longrightarrow> fetched env s = None) \<and>
     (fetched env s = None \<longrightarrow>
        has_error (cpmvalue (after_poll env s)) \<and> has_error (radvalue (after_poll env s)) \<and>
        cpm (after_poll env s) = cpm s \<and> rad (after_poll env s) = rad s \<and>
        shown (cpmvalue (after_poll env s)) = shown (cpmvalue s) \<and>
        shown (radvalue (after_poll env s)) = shown (radvalue s) \<and>
        mainlabel (after_poll env s) = mainlabel s \<and>
        poll_error env s = None \<and>
        (\<forall>d. fetched env2 (after_poll env s) = Some d \<longrightarrow>
           \<not> has_error (cpmvalue (after_poll env2 (after_poll env s))) \<and>
           \<not> has_error (radvalue (after_poll env2 (after_poll env s)))))"
proof (intro conjI allI impI)
  fix e assume "http_get env (fetch_request s) = RequestFailed e"
  then show "fetched env s = None" by (simp add: fetched_answer)
next
  fix code body
  assume "http_get env (fetch_request s) = Response code body \<and> 400 \<le> code \<and> code < 600"
  then show "fetched env s = None" by (simp add: fetched_answer)
next
  assume failed: "fetched env s = None"
  note f = poll_fetch_failure [OF rng on failed]
  from f show "has_error (cpmvalue (after_poll env s))"
    and "has_error (radvalue (after_poll env s))"
    and "cpm (after_poll env s) = cpm s" and "rad (after_poll env s) = rad s"
    and "shown (cpmvalue (after_poll env s)) = shown (cpmvalue s)"
    and "shown (radvalue (after_poll env s)) = shown (radvalue s)"
    and "mainlabel (after_poll env s) = mainlabel s"
    and "poll_error env s = None" by simp_all
  fix d assume got: "fetched env2 (after_poll env s) = Some d"
  have rng3: "\<forall>raw. read_sensor env2 (after_poll env s) (Tflag (after_poll env s)) = Some raw
      \<longrightarrow> sysctl_integer raw"
    using rng2 by (simp add: read_sensor_next after_poll_names)
  from poll_success_flags [OF rng3 after_poll_on [OF rng on failed] got]
  show "\<not> has_error (cpmvalue (after_poll env2 (after_poll env s)))"
    and "\<not> has_error (radvalue (after_poll env2 (after_poll env s)))" by simp_all
qed

theorem fetch_failure_witness:
  "has_error (cpmvalue (after_poll (world (Some 2985) (Some 45) (RequestFailed Timeout) None)
     (started ''B''))) \<and>
   cpm (after_poll (world (Some 2985) (Some 45) (RequestFailed Timeout) None) (started ''B''))
     = PNone \<and>
   \<not> has_error (cpmvalue (after_poll
     (world (Some 2985) (Some 45) (Response 200 (Json (JsonArray two_records))) None)
     (after_poll (world (Some 2985) (Some 45) (RequestFailed Timeout) None) (started ''B''))))"
proof -
  let ?w = "world (Some 2985) (Some 45) (RequestFailed Timeout) None"
  let ?w2 = "world (Some 2985) (Some 45) (Response 200 (Json (JsonArray two_records))) None"
  have got: "fetched ?w2 (after_poll ?w (started ''B'')) = Some (JsonArray two_records)"
    by (simp add: fetched_answer world_def)
  have rng: "\<forall>raw. read_sensor ?w (started ''B'') (Tflag (started ''B'')) = Some raw
      \<longrightarrow> sysctl_integer raw"
    by (rule world_in_range)
  have rng2: "\<forall>raw. read_sensor ?w2 (started ''B'') (Tflag (started ''B'')) = Some raw
      \<longrightarrow> sysctl_integer raw"
    by (rule world_in_range)
  from fetch_failure [OF rng started_fields(4) rng2]
  show ?thesis
    by (simp add: world_fetched started_fields got)
qed

theorem redirect_is_no_failure_counterexample:
  "http_get (world (Some 2985) (Some 45) (Response 300 (Json (JsonArray two_records))) None)
     (fetch_request (started ''B'')) = Response 300 (Json (JsonArray two_records)) \<and>
   \<not> has_error (cpmvalue (after_poll
     (world (Some 2985) (Some 45) (Response 300 (Json (JsonArray two_records))) None)
     (started ''B''))) \<and>
   \<not> has_error (radvalue (after_poll
     (world (Some 2985) (Some 45) (Response 300 (Json (JsonArray two_records))) None)
     (started ''B''))) \<and>
   cpm (after_poll
     (world (Some 2985) (Some 45) (Response 300 (Json (JsonArray two_records))) None)
     (started ''B'')) = PInt 12 \<and>
   cpm (started ''B'') = PNone"
proof -
  have lm: "last_match (id_value (uradmon_id (started ''B''))) two_records
      = Some (telemetry ''B'' ''1'' (PInt 12))"
    by (simp add: started_fields id_value_def two_records_B)
  have ne: "PInt 12 \<noteq> PNone" by simp
  let ?w = "world (Some 2985) (Some 45) (Response 300 (Json (JsonArray two_records))) None"
  have rng: "\<forall>raw. read_sensor ?w (started ''B'') (Tflag (started ''B'')) = Some raw
      \<longrightarrow> sysctl_integer raw"
    by (rule world_in_range)
  have got: "fetched ?w (started ''B'') = Some (JsonArray two_records)"
    by (rule world_fetched)
  have answer: "http_get ?w (fetch_request (started ''B''))
      = Response 300 (Json (JsonArray two_records))"
    by (simp add: world_def)
  have changed: "py_ne (cpm (started ''B'')) (PInt 12)"
    by (simp add: started_fields py_ne_def)
  from valid_record_effects(2) [OF rng started_fields(4) got
      two_records_shape lm telemetry_fields(2) telemetry_fields(3) ne telemetry_fields(4) changed]
    poll_success_flags [OF rng started_fields(4) got] answer
  show ?thesis by (simp add: started_fields)
qed

theorem count_rate_update:
  assumes rng: "\<forall>raw. read_sensor env s (Tflag s) = Some raw \<longrightarrow> sysctl_integer raw"
    and on: "Uflag s"
    and got: "fetched env s = Some (JsonArray items)"
    and shape: "list_all telemetry_record items"
    and lm: "last_match (id_value (uradmon_id s)) items = Some m"
    and st: "field m ''status'' = Some (PStr ''1'')"
    and c: "field m ''avg_cpm'' = Some c" "c \<noteq> PNone" "py_float c = Inr a"
    and f: "field m ''factor'' = Some f" "py_float f = Inr b"
  shows
    "(py_ne (cpm s) c \<longrightarrow>
        cpm (after_poll env s) = c \<and> rad (after_poll env s) = Some (float_mul a b) \<and>
        (\<forall>n. py_int c = Inr n \<longrightarrow>
           shown (cpmvalue (after_poll env s)) = FormatCpm n # shown (cpmvalue s) \<and>
           shown (radvalue (after_poll env s))
             = FormatRad (float_mul a b) # shown (radvalue s))) \<and>
     (\<not> py_ne (cpm s) c \<longrightarrow>
        cpm (after_poll env s) = cpm s \<and> rad (after_poll env s) = rad s \<and>
        shown (cpmvalue (after_poll env s)) = shown (cpmvalue s) \<and>
        shown (radvalue (after_poll env s)) = shown (radvalue s)) \<and>
     (rad (after_poll env s) \<noteq> rad s \<longrightarrow> py_ne (cpm s) c \<and> cpm (after_poll env s) = c) \<and>
     \<not> has_error (cpmvalue (after_poll env s)) \<and> \<not> has_error (radvalue (after_poll env s))"
proof -
  note eff = valid_record_effects [OF rng on got shape lm st c(1,2) f(1)]
  have same: "\<not> py_ne (cpm s) c \<longrightarrow>
        cpm (after_poll env s) = cpm s \<and> rad (after_poll env s) = rad s \<and>
        shown (cpmvalue (after_poll env s)) = shown (cpmvalue s) \<and>
        shown (radvalue (after_poll env s)) = shown (radvalue s)"
    using eff(1) by blast
  have changed: "py_ne (cpm s) c \<longrightarrow>
        cpm (after_poll env s) = c \<and> rad (after_poll env s) = Some (float_mul a b) \<and>
        (\<forall>n. py_int c = Inr n \<longrightarrow>
           shown (cpmvalue (after_poll env s)) = FormatCpm n # shown (cpmvalue s) \<and>
           shown (radvalue (after_poll env s))
             = FormatRad (float_mul a b) # shown (radvalue s))"
    using eff(2) eff(3) [OF _ c(3) f(2)] eff(4) [OF _ c(3) f(2)] by blast
  have only: "rad (after_poll env s) \<noteq> rad s \<longrightarrow> py_ne (cpm s) c \<and> cpm (after_poll env s) = c"
    using same changed by blast
  from same changed only poll_success_flags [OF rng on got] show ?thesis by blast
qed

theorem count_rate_update_witness:
  "cpm (after_poll (world (Some 2985) (Some 45) (Response 200 (Json (JsonArray two_records))) None)
     (started ''B'')) = PInt 12 \<and>
   rad (after_poll (world (Some 2985) (Some 45) (Response 200 (Json (JsonArray two_records))) None)
     (started ''B'')) = Some (FFinite (1080863910568919 / 9007199254740992)) \<and>
   float_of_string ''0.12'' = Inr (FFinite (1080863910568919 / 9007199254740992)) \<and>
   shown (cpmvalue (after_poll
     (world (Some 2985) (Some 45) (Response 200 (Json (JsonArray two_records))) None)
     (started ''B''))) = [FormatCpm 12] \<and>
   \<not> has_error (cpmvalue (after_poll
     (world (Some 2985) (Some 45) (Response 200 (Json (JsonArray two_records))) None)
     (started ''B''))) \<and>
   \<not> has_error (radvalue (after_poll
     (world (Some 2985) (Some 45) (Response 200 (Json (JsonArray two_records))) None)
     (started ''B'')))"
proof -
  have lm: "last_match (id_value (uradmon_id (started ''B''))) two_records
      = Some (telemetry ''B'' ''1'' (PInt 12))"
    by (simp add: started_fields id_value_def two_records_B)
  have ne: "PInt 12 \<noteq> PNone" by simp
  have hf: "py_float (PFloat hundredth) = Inr hundredth" by (simp add: py_float_def)
  from count_rate_update [OF world_in_range started_fields(4) world_fetched(1)
      two_records_shape lm telemetry_fields(2) telemetry_fields(3) ne py_float_12
      telemetry_fields(4) hf]
  show ?thesis
    by (simp add: started_fields py_ne_def py_int_12 twelve_hundredths float_of_string_0_12
        new_label_def)
qed

theorem last_match_wins:
  assumes on: "Uflag s"
    and answer: "http_get env (fetch_request s) = Response code (Json (JsonArray items))"
    and shape: "list_all telemetry_record items"
    and lm: "last_match (id_value (uradmon_id s)) items = Some m"
  shows "(\<exists>v. read_fields m = Inr v \<and>
            scan_items (id_value (uradmon_id s)) items None = Inr (Some v)) \<and>
     do_update_values env s
       = do_update_values (env\<lparr>http_get := \<lambda>request. Response code (Json (JsonArray [m]))\<rparr>) s"
proof
  from scan_last_match [OF shape lm]
  show "\<exists>v. read_fields m = Inr v \<and>
      scan_items (id_value (uradmon_id s)) items None = Inr (Some v)" by blast
next
  let ?env = "env\<lparr>http_get := \<lambda>request. Response code (Json (JsonArray [m]))\<rparr>"
  have rd: "read_sensor ?env s leaf = read_sensor env s leaf" for leaf
    by (simp add: read_sensor_def)
  show "do_update_values env s = do_update_values ?env s"
  proof (cases "temperature_block (read_sensor env s (Tflag s)) s")
    case (Inl e)
    then show ?thesis by (simp add: do_update_values_def rd)
  next
    case (Inr s1)
    let ?s2 = "humidity_block (read_sensor env s (Hflag s)) s1"
    have same: "remote_slots ?s2 = remote_slots s"
      by (simp add: humidity_block_remote temperature_block_remote [OF Inr])
    then have req: "fetch_request ?s2 = fetch_request s"
      and ident: "uradmon_id ?s2 = uradmon_id s" and on2: "Uflag ?s2"
      using on by (simp_all add: fetch_request_def remote_slots_def)
    from uradmon_block_last_match [of env ?s2 code items m] answer shape lm
    have "uradmon_block env ?s2 = uradmon_block ?env ?s2" by (simp add: req ident)
    with Inr on2 show ?thesis by (simp add: do_update_values_def rd Let_def)
  qed
qed

theorem last_match_wins_witness:
  "do_update_values
     (world (Some 2985) (Some 45) (Response 200 (Json (JsonArray duplicate_records))) None)
     (started ''B'')
   = do_update_values
       ((world (Some 2985) (Some 45) (Response 200 (Json (JsonArray duplicate_records))) None)
          \<lparr>http_get := \<lambda>request. Response 200 (Json (JsonArray [telemetry ''B'' ''0'' (PInt 12)]))\<rparr>)
       (started ''B'')"
proof -
  let ?w = "world (Some 2985) (Some 45) (Response 200 (Json (JsonArray duplicate_records))) None"
  have answer: "http_get ?w (fetch_request (started ''B''))
      = Response 200 (Json (JsonArray duplicate_records))"
    by (simp add: world_def)
  have shape: "list_all telemetry_record duplicate_records"
    by (simp add: duplicate_records_def telemetry_is_record)
  have lm: "last_match (id_value (uradmon_id (started ''B''))) duplicate_records
      = Some (telemetry ''B'' ''0'' (PInt 12))"
    by (simp add: started_fields id_value_def duplicate_records_def last_match_def
        telemetry_matches)
  from last_match_wins [OF started_fields(4) answer shape lm]
  show ?thesis by simp
qed

end
